theory Spec2Isabelle
  imports Complex_Main
begin

section \<open>JavaScript values as the client sees them\<close>

text \<open>
  The client is TypeScript; at run time its values are JavaScript values. A number is
  taken as a real (no claim depends on rounding), a built-in function is named, and an
  object is the list of its own enumerable properties.
\<close>

type_synonym number = real

datatype jsval =
    Undefined
  | Null
  | Bool bool
  | Num number
  | Str string
  | Fun string
  | Arr "jsval list"
  | Obj "(string \<times> jsval) list"

text \<open>The operand test of \<open>||\<close>, \<open>!\<close> and \<open>if\<close>.\<close>

fun truthy :: "jsval \<Rightarrow> bool" where
  "truthy Undefined = False"
| "truthy Null = False"
| "truthy (Bool b) = b"
| "truthy (Num n) = (n \<noteq> 0)"
| "truthy (Str s) = (s \<noteq> [])"
| "truthy (Fun f) = True"
| "truthy (Arr xs) = True"
| "truthy (Obj kvs) = True"

text \<open>
  An object literal inherits from \<open>Object.prototype\<close>: a property that is not the
  object's own is looked up there. Its \<open>__proto__\<close> accessor gives the prototype
  object itself, which has no enumerable property of its own.
\<close>

definition Object_prototype :: "(string \<times> jsval) list" where
  "Object_prototype =
    [(''constructor'', Fun ''Object''),
     (''__proto__'', Obj []),
     (''hasOwnProperty'', Fun ''hasOwnProperty''),
     (''isPrototypeOf'', Fun ''isPrototypeOf''),
     (''propertyIsEnumerable'', Fun ''propertyIsEnumerable''),
     (''toLocaleString'', Fun ''toLocaleString''),
     (''toString'', Fun ''toString''),
     (''valueOf'', Fun ''valueOf''),
     (''__defineGetter__'', Fun ''__defineGetter__''),
     (''__defineSetter__'', Fun ''__defineSetter__''),
     (''__lookupGetter__'', Fun ''__lookupGetter__''),
     (''__lookupSetter__'', Fun ''__lookupSetter__'')]"

text \<open>\<open>o[k]\<close> on an ordinary object: own property, then the prototype, then undefined.\<close>

definition obj_get :: "(string \<times> jsval) list \<Rightarrow> string \<Rightarrow> jsval" where
  "obj_get kvs k =
    (case map_of kvs k of
       Some v \<Rightarrow> v
     | None \<Rightarrow> (case map_of Object_prototype k of Some v \<Rightarrow> v | None \<Rightarrow> Undefined))"

text \<open>
  \<open>JSON.stringify\<close>, with the text abstracted to the JSON value it denotes: \<open>None\<close>
  where the result is \<open>undefined\<close>. A property whose value is undefined or a function is
  left out of an object; such an element of an array becomes \<open>null\<close>.
\<close>

fun JSON_stringify :: "jsval \<Rightarrow> jsval option"
  and stringify_props :: "(string \<times> jsval) list \<Rightarrow> (string \<times> jsval) list"
  and stringify_elems :: "jsval list \<Rightarrow> jsval list" where
  "JSON_stringify Undefined = None"
| "JSON_stringify (Fun f) = None"
| "JSON_stringify Null = Some Null"
| "JSON_stringify (Bool b) = Some (Bool b)"
| "JSON_stringify (Num n) = Some (Num n)"
| "JSON_stringify (Str s) = Some (Str s)"
| "JSON_stringify (Arr xs) = Some (Arr (stringify_elems xs))"
| "JSON_stringify (Obj kvs) = Some (Obj (stringify_props kvs))"
| "stringify_props [] = []"
| "stringify_props (kv # kvs) =
     (case JSON_stringify (snd kv) of
        None \<Rightarrow> stringify_props kvs
      | Some v \<Rightarrow> (fst kv, v) # stringify_props kvs)"
| "stringify_elems [] = []"
| "stringify_elems (x # xs) =
     (case JSON_stringify x of None \<Rightarrow> Null | Some v \<Rightarrow> v) # stringify_elems xs"

section \<open>frontend/src/lib/api.ts\<close>

subsection \<open>The typed contract\<close>

record Question =
  id_q :: number
  text_q :: string

record Candidate =
  name :: string
  probability :: number

record GameState =
  question :: "Question option"
  questionIndex :: "number option"
  questionNumber :: number
  entropy :: number
  topCandidates :: "Candidate list"
  guess :: "Candidate option"

subsection \<open>mapAnswerToBackend\<close>

definition mapping :: "(string \<times> jsval) list" where
  "mapping =
    [(''yes'', Str ''yes''),
     (''probably-yes'', Str ''probably_yes''),
     (''maybe'', Str ''unknown''),
     (''probably-no'', Str ''probably_no''),
     (''no'', Str ''no'')]"

definition mapAnswerToBackend :: "string \<Rightarrow> jsval" where
  "mapAnswerToBackend answer =
    (let v = obj_get mapping answer in if truthy v then v else Str ''unknown'')"

subsection \<open>Requests, responses and thrown values\<close>

datatype request = Request (http_method: string) (url: string) (body: "jsval option")

record response =
  status :: nat
  statusText :: string
  text_r :: string

definition ok :: "response \<Rightarrow> bool" where
  "ok r = (200 \<le> status r \<and> status r \<le> 299)"

text \<open>
  The message of an error: a string, or \<open>String(v)\<close> of a value that is not a string
  (kept unevaluated).
\<close>

datatype message = Lit string | ToString jsval

datatype exn = Error message | TypeError string

fun message_of :: "exn \<Rightarrow> message" where
  "message_of (Error m) = m"
| "message_of (TypeError s) = Lit s"

text \<open>\<open>new Error(v)\<close>\<close>

fun new_Error :: "jsval \<Rightarrow> exn" where
  "new_Error (Str s) = Error (Lit s)"
| "new_Error v = Error (ToString v)"

text \<open>
  \<open>fetch\<close> either rejects or resolves to a response. Within one handler no endpoint is
  called twice, so the network is a function of the request.
\<close>

type_synonym network = "request \<Rightarrow> exn + response"

definition API_BASE :: string where
  "API_BASE = ''/api''"

text \<open>Decimal digits of a number in a template literal.\<close>

definition digit_char :: "nat \<Rightarrow> char" where
  "digit_char d = ''0123456789'' ! d"

fun show_nat :: "nat \<Rightarrow> string" where
  "show_nat n = (if n < 10 then [digit_char n] else show_nat (n div 10) @ [digit_char (n mod 10)])"

declare show_nat.simps [simp del]

text \<open>\<open>s.includes(sub)\<close>\<close>

fun starts_with :: "string \<Rightarrow> string \<Rightarrow> bool" where
  "starts_with s [] = True"
| "starts_with [] (c # cs) = False"
| "starts_with (d # ds) (c # cs) = (d = c \<and> starts_with ds cs)"

fun includes_str :: "string \<Rightarrow> string \<Rightarrow> bool" where
  "includes_str [] sub = starts_with [] sub"
| "includes_str (d # ds) sub = (starts_with (d # ds) sub \<or> includes_str ds sub)"

subsection \<open>parseJsonResponse\<close>

text \<open>
  \<open>JSON.parse\<close> is a parameter \<open>P\<close>: \<open>None\<close> where it throws a SyntaxError, otherwise
  the parsed value (an object carries each key once). The cast \<open>as T\<close> checks nothing.
\<close>

definition parseJsonResponse :: "(string \<Rightarrow> jsval option) \<Rightarrow> response \<Rightarrow> exn + jsval" where
  "parseJsonResponse P r =
    (let body_text = text_r r in
     if body_text = [] then
       Inl (Error (Lit (''Empty response from server (status: '' @ show_nat (status r)
                        @ ''). Is the backend server running?'')))
     else
       (case P body_text of
          None \<Rightarrow> Inl (Error (Lit (''Invalid JSON response: '' @ take 100 body_text)))
        | Some v \<Rightarrow> Inr v))"

text \<open>
  The branch \<open>if (!response.ok)\<close>, the same in the four functions but for the last
  string: the body is parsed, a failure of that is replaced by an object built from the
  status line, and \<open>error.error || fallback\<close> is thrown as an Error. Reading
  \<open>.error\<close> of \<open>null\<close> throws a TypeError (its wording depends on the engine); a
  primitive or an array has no such property.
\<close>

fun member_error :: "jsval \<Rightarrow> exn + jsval" where
  "member_error Null = Inl (TypeError ''Cannot read properties of null (reading error)'')"
| "member_error Undefined = Inl (TypeError ''Cannot read properties of undefined (reading error)'')"
| "member_error (Obj kvs) = Inr (obj_get kvs ''error'')"
| "member_error v = Inr Undefined"

definition server_error :: "response \<Rightarrow> string" where
  "server_error r = ''Server error ('' @ show_nat (status r) @ ''): '' @ statusText r"

definition not_ok_throw :: "(string \<Rightarrow> jsval option) \<Rightarrow> response \<Rightarrow> string \<Rightarrow> exn" where
  "not_ok_throw P r fallback =
    (let error = (case parseJsonResponse P r of
                    Inl e \<Rightarrow> Obj [(''error'', Str (server_error r))]
                  | Inr v \<Rightarrow> v)
     in case member_error error of
          Inl te \<Rightarrow> te
        | Inr e \<Rightarrow> new_Error (if truthy e then e else Str fallback))"

subsection \<open>The four calls\<close>

text \<open>
  Each call gives the requests it issued and its outcome: \<open>Inl\<close> the thrown value,
  \<open>Inr\<close> the parsed body as the declared result type reads it. The parameter
  \<open>cast\<close> stands for the unchecked \<open>as T\<close>; the handlers pass the reading
  \<open>as_GameState\<close> below, under which a body of \<open>null\<close> stays \<open>null\<close>.
\<close>

definition after_fetch ::
  "(string \<Rightarrow> jsval option) \<Rightarrow> (jsval \<Rightarrow> 'a) \<Rightarrow> string \<Rightarrow> exn + response \<Rightarrow> exn + 'a" where
  "after_fetch P cast fallback res =
    (case res of
       Inl e \<Rightarrow> Inl e
     | Inr r \<Rightarrow>
         if \<not> ok r then Inl (not_ok_throw P r fallback)
         else (case parseJsonResponse P r of Inl e \<Rightarrow> Inl e | Inr v \<Rightarrow> Inr (cast v)))"

definition cannot_connect :: string where
  "cannot_connect =
    ''Cannot connect to backend server. Make sure it'' @ [CHR 0x27]
    @ ''s running on http://localhost:5000''"

definition start_request :: request where
  "start_request = Request ''POST'' (API_BASE @ ''/start'') None"

definition startGame ::
  "(string \<Rightarrow> jsval option) \<Rightarrow> (jsval \<Rightarrow> 'a) \<Rightarrow> network \<Rightarrow> request list \<times> (exn + 'a)" where
  "startGame P cast net =
    ([start_request],
     case after_fetch P cast ''Failed to start game'' (net start_request) of
       Inl (TypeError m) \<Rightarrow>
         if includes_str m ''fetch'' then
           Inl (Error (Lit cannot_connect))
         else Inl (TypeError m)
     | Inl e \<Rightarrow> Inl e
     | Inr v \<Rightarrow> Inr v)"

definition answer_request :: "number \<Rightarrow> string \<Rightarrow> request" where
  "answer_request questionId answer =
    (let backendAnswer = mapAnswerToBackend answer in
     Request ''POST'' (API_BASE @ ''/answer'')
       (JSON_stringify (Obj [(''questionId'', Num questionId), (''answer'', backendAnswer)])))"

definition submitAnswer ::
  "(string \<Rightarrow> jsval option) \<Rightarrow> (jsval \<Rightarrow> 'a) \<Rightarrow> network \<Rightarrow> number \<Rightarrow> string
     \<Rightarrow> request list \<times> (exn + 'a)" where
  "submitAnswer P cast net questionId answer =
    ([answer_request questionId answer],
     after_fetch P cast ''Failed to submit answer'' (net (answer_request questionId answer)))"

definition next_question_request :: request where
  "next_question_request = Request ''POST'' (API_BASE @ ''/next-question'') None"

definition getNextQuestion ::
  "(string \<Rightarrow> jsval option) \<Rightarrow> (jsval \<Rightarrow> 'a) \<Rightarrow> network \<Rightarrow> request list \<times> (exn + 'a)" where
  "getNextQuestion P cast net =
    ([next_question_request],
     after_fetch P cast ''Failed to get next question'' (net next_question_request))"

definition guess_feedback_request :: "bool \<Rightarrow> request" where
  "guess_feedback_request correct =
    Request ''POST'' (API_BASE @ ''/guess-feedback'')
      (JSON_stringify (Obj [(''correct'', Bool correct)]))"

definition submitGuessFeedback ::
  "(string \<Rightarrow> jsval option) \<Rightarrow> (jsval \<Rightarrow> 'a) \<Rightarrow> network \<Rightarrow> bool \<Rightarrow> request list \<times> (exn + 'a)" where
  "submitGuessFeedback P cast net correct =
    ([guess_feedback_request correct],
     after_fetch P cast ''Failed to submit feedback'' (net (guess_feedback_request correct)))"

subsection \<open>The body of a response as a game state\<close>

text \<open>
  \<open>JSON.parse(text) as GameState\<close>: the cast checks nothing, so a body of \<open>null\<close> is
  the state \<open>null\<close>. Any other body is read as the record that the type promises,
  through \<open>view\<close>.
\<close>

definition as_GameState :: "(jsval \<Rightarrow> GameState) \<Rightarrow> jsval \<Rightarrow> GameState option" where
  "as_GameState view v = (case v of Null \<Rightarrow> None | Undefined \<Rightarrow> None | _ \<Rightarrow> Some (view v))"

section \<open>The page component (Index) and its screens\<close>

datatype GameStateType = landing | playing | result

record GuessedCharacter =
  name_g :: string
  quote :: "string option"

record Index_state =
  gameState :: GameStateType
  currentState :: "GameState option"
  guessedCharacter :: "GuessedCharacter option"
  showAbout :: bool
  isLoading :: bool

record toast =
  title :: string
  description :: message
  variant :: string

text \<open>
  A handler runs on the state of the render it was created in. It yields the state after
  all its updates, the requests it issued in order, and the toasts it raised.
\<close>

record outcome =
  state_after :: Index_state
  requests :: "request list"
  toasts :: "toast list"

text \<open>Every thrown value here is an Error, so the description is its message.\<close>

definition error_toast :: "exn \<Rightarrow> toast" where
  "error_toast e = \<lparr>title = ''Error'', description = message_of e, variant = ''destructive''\<rparr>"

text \<open>The early \<open>return\<close> of a guard: nothing sent, nothing set.\<close>

definition returned :: "Index_state \<Rightarrow> outcome" where
  "returned s = \<lparr>state_after = s, requests = [], toasts = []\<rparr>"

text \<open>\<open>catch\<close> then \<open>finally\<close>: a toast, and \<open>isLoading\<close> back to false.\<close>

definition caught :: "Index_state \<Rightarrow> request list \<Rightarrow> exn \<Rightarrow> outcome" where
  "caught s rs e =
    \<lparr>state_after = s\<lparr>isLoading := False\<rparr>, requests = rs, toasts = [error_toast e]\<rparr>"

definition handleStartGame ::
  "(string \<Rightarrow> jsval option) \<Rightarrow> (jsval \<Rightarrow> GameState) \<Rightarrow> network \<Rightarrow> Index_state \<Rightarrow> outcome" where
  "handleStartGame P cast net s =
    (case startGame P (as_GameState cast) net of
       (rs, Inl e) \<Rightarrow> caught s rs e
     | (rs, Inr state) \<Rightarrow>
         \<lparr>state_after = s\<lparr>currentState := state, gameState := playing,
                            guessedCharacter := None, isLoading := False\<rparr>,
          requests = rs, toasts = []\<rparr>)"

definition handleQuitGame :: "Index_state \<Rightarrow> Index_state" where
  "handleQuitGame s = s\<lparr>gameState := landing, currentState := None, guessedCharacter := None\<rparr>"

definition handleAnswer ::
  "(string \<Rightarrow> jsval option) \<Rightarrow> (jsval \<Rightarrow> GameState) \<Rightarrow> network \<Rightarrow> string \<Rightarrow> Index_state
     \<Rightarrow> outcome" where
  "handleAnswer P cast net answer s =
    (case currentState s of
       None \<Rightarrow> returned s
     | Some cs \<Rightarrow>
         (case question cs of
            None \<Rightarrow> returned s
          | Some q \<Rightarrow>
              if isLoading s then returned s
              else
                (case submitAnswer P (as_GameState cast) net (id_q q) answer of
                   (rs, Inl e) \<Rightarrow> caught s rs e
                 | (rs, Inr newState) \<Rightarrow>
                     \<lparr>state_after = s\<lparr>currentState := newState, isLoading := False\<rparr>,
                      requests = rs, toasts = []\<rparr>)))"

definition handleGuessFeedback ::
  "(string \<Rightarrow> jsval option) \<Rightarrow> (jsval \<Rightarrow> GameState) \<Rightarrow> network \<Rightarrow> bool \<Rightarrow> Index_state
     \<Rightarrow> outcome" where
  "handleGuessFeedback P cast net correct s =
    (case currentState s of
       None \<Rightarrow> returned s
     | Some cs \<Rightarrow>
         (case guess cs of
            None \<Rightarrow> returned s
          | Some g \<Rightarrow>
              if isLoading s then returned s
              else if correct then
                \<lparr>state_after = s\<lparr>guessedCharacter := Some \<lparr>name_g = name g, quote = None\<rparr>,
                                   gameState := result, isLoading := False\<rparr>,
                 requests = [], toasts = []\<rparr>
              else
                (case submitGuessFeedback P (\<lambda>v. v) net False of
                   (rs1, Inl e) \<Rightarrow> caught s rs1 e
                 | (rs1, Inr fb) \<Rightarrow>
                     (case getNextQuestion P (as_GameState cast) net of
                        (rs2, Inl e) \<Rightarrow> caught s (rs1 @ rs2) e
                      | (rs2, Inr newState) \<Rightarrow>
                          \<lparr>state_after = s\<lparr>currentState := newState, isLoading := False\<rparr>,
                           requests = rs1 @ rs2, toasts = []\<rparr>))))"

subsection \<open>What a screen shows\<close>

text \<open>
  A rendered screen is the list of its elements, in document order: each button with the
  handler it fires and whether it is disabled, each piece of text with the data it shows.
\<close>

datatype control =
  OpenAbout | Start | Quit | Answer string | GuessFeedback bool | PlayAgain | Share

datatype element =
    Button control bool
  | Title
  | Tagline
  | GuessPrompt string
  | Confidence int
  | LoadingText
  | QuestionCounter number
  | Uncertainty number
  | Progress number
  | QuestionText string
  | ResultName string
  | ResultQuote string
  | AboutModal bool

definition LandingScreen :: "element list" where
  "LandingScreen = [Button OpenAbout False, Title, Tagline, Button Start False]"

record GameScreenProps =
  question_p :: "string option"
  questionNumber_p :: number
  entropy_p :: "number option"
  guess_p :: "Candidate option"
  isLoading_p :: "bool option"

definition answers :: "(string \<times> string) list" where
  "answers =
    [(''yes'', ''Yes''),
     (''probably-yes'', ''Probably''),
     (''maybe'', ''Maybe''),
     (''probably-no'', ''Probably Not''),
     (''no'', ''No'')]"

text \<open>\<open>Math.round\<close> rounds a half upwards.\<close>

definition Math_round :: "number \<Rightarrow> int" where
  "Math_round x = \<lfloor>x + 1 / 2\<rfloor>"

definition GameScreen :: "GameScreenProps \<Rightarrow> element list" where
  "GameScreen props =
    (let entropy = (case entropy_p props of None \<Rightarrow> 0 | Some e \<Rightarrow> e);
         isLoading = (case isLoading_p props of None \<Rightarrow> False | Some b \<Rightarrow> b)
     in case guess_p props of
          Some g \<Rightarrow>
            [Button Quit False,
             GuessPrompt (name g),
             Confidence (Math_round (probability g * 100)),
             Button (GuessFeedback True) isLoading,
             Button (GuessFeedback False) isLoading]
        | None \<Rightarrow>
            (case question_p props of
               None \<Rightarrow> [LoadingText]
             | Some q \<Rightarrow>
                 if q = [] then [LoadingText]
                 else
                   [Button Quit False, QuestionCounter (questionNumber_p props)]
                   @ (if entropy > 0 then [Uncertainty entropy] else [])
                   @ [Progress (max 0 (min 100 ((1 - entropy / 10) * 100))), QuestionText q]
                   @ map (\<lambda>a. Button (Answer (fst a)) isLoading) answers))"

definition ResultScreen :: "string \<Rightarrow> string \<Rightarrow> element list" where
  "ResultScreen characterName characterQuote =
    [ResultName characterName, ResultQuote characterQuote,
     Button PlayAgain False, Button Share False]"

text \<open>The JSX returned by the page: at most one screen, then the modal.\<close>

definition Index :: "Index_state \<Rightarrow> element list" where
  "Index s =
    (if gameState s = landing then LandingScreen else [])
    @ (case currentState s of
         Some cs \<Rightarrow>
           if gameState s = playing then
             GameScreen
               \<lparr>question_p =
                  (case question cs of
                     None \<Rightarrow> None
                   | Some q \<Rightarrow> if text_q q = [] then None else Some (text_q q)),
                questionNumber_p = questionNumber cs,
                entropy_p = Some (entropy cs),
                guess_p = guess cs,
                isLoading_p = Some (isLoading s)\<rparr>
           else []
       | None \<Rightarrow> [])
    @ (case guessedCharacter s of
         Some gc \<Rightarrow>
           if gameState s = result then
             ResultScreen (name_g gc)
               (case quote gc of
                  Some q \<Rightarrow> if q = [] then ''I knew it was '' @ name_g gc @ ''!'' else q
                | None \<Rightarrow> ''I knew it was '' @ name_g gc @ ''!'')
           else []
       | None \<Rightarrow> [])
    @ [AboutModal (showAbout s)]"

text \<open>The buttons of a screen, and the interactions it offers.\<close>

fun controls :: "element list \<Rightarrow> control list" where
  "controls [] = []"
| "controls (Button c d # es) = c # controls es"
| "controls (e # es) = controls es"

fun is_answer :: "control \<Rightarrow> bool" where
  "is_answer (Answer a) = True"
| "is_answer c = False"

fun is_guess_feedback :: "control \<Rightarrow> bool" where
  "is_guess_feedback (GuessFeedback b) = True"
| "is_guess_feedback c = False"

section \<open>The inference engine, from its specification\<close>

text \<open>
  The engine behind the endpoints is not among the source files. The part of it that the
  normalization invariant is about is written here from its specification.
\<close>

text \<open>
  Modelled from the spec: the five graded answers, named as the labels of POST /answer;
  the engine's own type is missing.
\<close>

datatype graded_answer = yes | probably_yes | unknown | probably_no | no

text \<open>
  Modelled from the spec: the target agreement value of a graded answer (Answer
  Likelihood Model); the engine's own table is missing.
\<close>

fun agreement :: "graded_answer \<Rightarrow> real" where
  "agreement yes = 1"
| "agreement probably_yes = 3 / 4"
| "agreement unknown = 1 / 2"
| "agreement probably_no = 1 / 4"
| "agreement no = 0"

text \<open>
  Modelled from the spec: the small positive floor of a likelihood, "e.g. 0.01"; the
  engine's constant is missing.
\<close>

definition likelihood_floor :: real where
  "likelihood_floor = 1 / 100"

text \<open>
  Modelled from the spec: the likelihood \<open>L = 1 - |t - p|\<close>, clamped to the floor; the
  engine's function is missing.
\<close>

definition likelihood :: "graded_answer \<Rightarrow> real \<Rightarrow> real" where
  "likelihood a p = max likelihood_floor (1 - \<bar>agreement a - p\<bar>)"

text \<open>
  Modelled from the spec: a character with a Beta parameter pair per trait, the mean
  \<open>\<alpha> / (\<alpha> + \<beta>)\<close>, and the uninformative \<open>(1, 1)\<close> for a trait the character is not
  scored on; the knowledge base is missing.
\<close>

record Character =
  character_id :: nat
  display_name :: string
  display_quote :: string
  belief :: "(string \<times> real \<times> real) list"

definition trait_mean :: "Character \<Rightarrow> string \<Rightarrow> real" where
  "trait_mean c t =
    (case map_of (belief c) t of
       None \<Rightarrow> 1 / (1 + 1)
     | Some (alpha, beta) \<Rightarrow> alpha / (alpha + beta))"

text \<open>
  Modelled from the spec: the recovery of the Posterior Updater, "a uniform-with-floor
  re-mix of the previous posterior", read as: every entry raised to the floor, then the
  vector renormalized; the engine's recovery is missing.
\<close>

definition remix :: "real list \<Rightarrow> real list" where
  "remix prev =
    (let floored = map (\<lambda>x. max x likelihood_floor) prev
     in map (\<lambda>x. x / sum_list floored) floored)"

text \<open>
  Modelled from the spec: the Posterior Updater. The posterior is a list aligned with the
  catalog of characters; each entry is multiplied by the likelihood of the answer for
  that character's mean on the question's trait, and the vector is divided by its sum;
  a sum of zero falls back to the re-mix. The engine's updater is missing.
\<close>

definition posterior_update ::
  "Character list \<Rightarrow> string \<Rightarrow> graded_answer \<Rightarrow> real list \<Rightarrow> real list" where
  "posterior_update catalog trait a prior =
    (let unnormalized = map (\<lambda>(c, p). p * likelihood a (trait_mean c trait)) (zip catalog prior);
         total = sum_list unnormalized
     in if total = 0 then remix prior else map (\<lambda>w. w / total) unnormalized)"

text \<open>
  Modelled from the spec: the invariant of a posterior, one entry per character, none
  negative, summing to one; the engine's belief state is missing.
\<close>

definition is_posterior :: "Character list \<Rightarrow> real list \<Rightarrow> bool" where
  "is_posterior catalog v =
    (length v = length catalog \<and> list_all (\<lambda>x. 0 \<le> x) v \<and> sum_list v = 1)"

text \<open>
  Modelled from the spec: the states of the Guess Policy (section 4.4). The proposed and
  the confirmed candidate are carried by the state, as the design notes ask ("a tagged
  variant of the session's state machine, not an optional field"); the engine's policy is
  missing.
\<close>

datatype guess_policy =
  asking | proposing Candidate | confirmed Candidate | rejected_continuing

fun in_proposing :: "guess_policy \<Rightarrow> bool" where
  "in_proposing (proposing c) = True"
| "in_proposing p = False"

text \<open>
  Modelled from the spec: the \<open>guess\<close> field of a response body (section 6), the
  candidate under proposal and \<open>null\<close> in every other state; the engine's response
  builder is missing.
\<close>

fun response_guess :: "guess_policy \<Rightarrow> Candidate option" where
  "response_guess (proposing c) = Some c"
| "response_guess p = None"

section \<open>Concrete states used in the examples\<close>

definition the_question :: Question where
  "the_question = \<lparr>id_q = 7, text_q = ''Can they fly?''\<rparr>"

definition the_candidate :: Candidate where
  "the_candidate = \<lparr>name = ''Perry'', probability = 9 / 10\<rparr>"

definition asking_response :: GameState where
  "asking_response =
    \<lparr>question = Some the_question, questionIndex = Some 0, questionNumber = 1,
     entropy = 2, topCandidates = [the_candidate], guess = None\<rparr>"

definition proposing_response :: GameState where
  "proposing_response =
    \<lparr>question = None, questionIndex = None, questionNumber = 2,
     entropy = 1 / 2, topCandidates = [the_candidate], guess = Some the_candidate\<rparr>"

definition asking_state :: Index_state where
  "asking_state =
    \<lparr>gameState = playing, currentState = Some asking_response, guessedCharacter = None,
     showAbout = False, isLoading = False\<rparr>"

definition proposing_state :: Index_state where
  "proposing_state =
    \<lparr>gameState = playing, currentState = Some proposing_response, guessedCharacter = None,
     showAbout = False, isLoading = False\<rparr>"

text \<open>A network that is down, and one whose server answers every request with a 200.\<close>

definition offline :: network where
  "offline rq = Inl (TypeError ''Failed to fetch'')"

definition serving :: network where
  "serving rq = Inr \<lparr>status = 200, statusText = ''OK'', text_r = ''B''\<rparr>"

definition flaky :: network where
  "flaky rq = (if url rq = ''/api/next-question'' then offline rq else serving rq)"

definition parse_any :: "string \<Rightarrow> jsval option" where
  "parse_any t = Some (Obj [])"

section \<open>What is displayed, what is pending\<close>

definition displayed ::
  "Index_state \<Rightarrow> GameStateType \<times> GameState option \<times> GuessedCharacter option" where
  "displayed s = (gameState s, currentState s, guessedCharacter s)"

definition question_pending :: "Index_state \<Rightarrow> bool" where
  "question_pending s = (case currentState s of None \<Rightarrow> False | Some cs \<Rightarrow> question cs \<noteq> None)"

definition guess_pending :: "Index_state \<Rightarrow> bool" where
  "guess_pending s = (case currentState s of None \<Rightarrow> False | Some cs \<Rightarrow> guess cs \<noteq> None)"

section \<open>The screens as the claims speak of them\<close>

fun is_question_text :: "element \<Rightarrow> bool" where
  "is_question_text (QuestionText q) = True"
| "is_question_text e = False"

definition presents_guess_confirmation :: "Index_state \<Rightarrow> bool" where
  "presents_guess_confirmation s = list_ex is_guess_feedback (controls (Index s))"

definition confirmed_state :: Index_state where
  "confirmed_state =
    state_after (handleGuessFeedback parse_any (\<lambda>v. asking_response) serving True proposing_state)"

definition spec_shape ::
  "GameState \<Rightarrow> Question option \<times> number \<times> number \<times> Candidate list \<times> Candidate option" where
  "spec_shape gs = (question gs, questionNumber gs, entropy gs, topCandidates gs, guess gs)"





text \<open>A catalog of two characters, as in the scenario of the specification.\<close>

definition flyer :: Character where
  "flyer = \<lparr>character_id = 0, display_name = ''A'', display_quote = ''Up!'',
             belief = [(''flies'', 19, 1)]\<rparr>"

definition walker :: Character where
  "walker = \<lparr>character_id = 1, display_name = ''B'', display_quote = ''Down.'',
              belief = [(''flies'', 1, 19)]\<rparr>"

section \<open>The handlers in time\<close>

text \<open>
  An async handler runs up to its \<open>await\<close> when its button is clicked and resumes when
  the awaited call settles; other clicks may come in between. The calls that are
  suspended are the requests in flight. A setter acts on the state that the page has when
  the handler resumes, whatever it was when the handler began.
\<close>

datatype awaited =
    Await_startGame
  | Await_submitAnswer number string
  | Await_submitGuessFeedback bool
  | Await_getNextQuestion

fun request_of :: "awaited \<Rightarrow> request" where
  "request_of Await_startGame = start_request"
| "request_of (Await_submitAnswer questionId answer) = answer_request questionId answer"
| "request_of (Await_submitGuessFeedback correct) = guess_feedback_request correct"
| "request_of Await_getNextQuestion = next_question_request"

record browser =
  page :: Index_state
  in_flight :: "awaited list"
  raised :: "toast list"

text \<open>Each handler, from the click to its first \<open>await\<close> (or to its end, if it has none).\<close>

definition begin_handleStartGame :: "browser \<Rightarrow> browser" where
  "begin_handleStartGame b =
    b\<lparr>page := (page b)\<lparr>isLoading := True\<rparr>, in_flight := in_flight b @ [Await_startGame]\<rparr>"

definition begin_handleAnswer :: "string \<Rightarrow> browser \<Rightarrow> browser" where
  "begin_handleAnswer answer b =
    (case currentState (page b) of
       None \<Rightarrow> b
     | Some cs \<Rightarrow>
         (case question cs of
            None \<Rightarrow> b
          | Some q \<Rightarrow>
              if isLoading (page b) then b
              else b\<lparr>page := (page b)\<lparr>isLoading := True\<rparr>,
                     in_flight := in_flight b @ [Await_submitAnswer (id_q q) answer]\<rparr>))"

definition begin_handleGuessFeedback :: "bool \<Rightarrow> browser \<Rightarrow> browser" where
  "begin_handleGuessFeedback correct b =
    (case currentState (page b) of
       None \<Rightarrow> b
     | Some cs \<Rightarrow>
         (case guess cs of
            None \<Rightarrow> b
          | Some g \<Rightarrow>
              if isLoading (page b) then b
              else if correct then
                b\<lparr>page := (page b)\<lparr>guessedCharacter := Some \<lparr>name_g = name g, quote = None\<rparr>,
                                      gameState := result, isLoading := False\<rparr>\<rparr>
              else
                b\<lparr>page := (page b)\<lparr>isLoading := True\<rparr>,
                  in_flight := in_flight b @ [Await_submitGuessFeedback False]\<rparr>))"

text \<open>\<open>catch\<close> then \<open>finally\<close>, in a handler that resumes.\<close>

definition thrown :: "exn \<Rightarrow> browser \<Rightarrow> browser" where
  "thrown e b = b\<lparr>page := (page b)\<lparr>isLoading := False\<rparr>, raised := raised b @ [error_toast e]\<rparr>"

text \<open>The rest of each handler, once the call it awaits has settled with \<open>res\<close>.\<close>

fun resume ::
  "(string \<Rightarrow> jsval option) \<Rightarrow> (jsval \<Rightarrow> GameState) \<Rightarrow> awaited \<Rightarrow> exn + response \<Rightarrow> browser
     \<Rightarrow> browser" where
  "resume P cast Await_startGame res b =
    (case snd (startGame P (as_GameState cast) (\<lambda>rq. res)) of
       Inl e \<Rightarrow> thrown e b
     | Inr state \<Rightarrow>
         b\<lparr>page := (page b)\<lparr>currentState := state, gameState := playing,
                               guessedCharacter := None, isLoading := False\<rparr>\<rparr>)"
| "resume P cast (Await_submitAnswer questionId answer) res b =
    (case snd (submitAnswer P (as_GameState cast) (\<lambda>rq. res) questionId answer) of
       Inl e \<Rightarrow> thrown e b
     | Inr newState \<Rightarrow> b\<lparr>page := (page b)\<lparr>currentState := newState, isLoading := False\<rparr>\<rparr>)"
| "resume P cast (Await_submitGuessFeedback correct) res b =
    (case snd (submitGuessFeedback P (\<lambda>v. v) (\<lambda>rq. res) correct) of
       Inl e \<Rightarrow> thrown e b
     | Inr fb \<Rightarrow> b\<lparr>in_flight := in_flight b @ [Await_getNextQuestion]\<rparr>)"
| "resume P cast Await_getNextQuestion res b =
    (case snd (getNextQuestion P (as_GameState cast) (\<lambda>rq. res)) of
       Inl e \<Rightarrow> thrown e b
     | Inr newState \<Rightarrow> b\<lparr>page := (page b)\<lparr>currentState := newState, isLoading := False\<rparr>\<rparr>)"

text \<open>The \<open>onClick\<close> of each button, as the page wires it.\<close>

fun on_click :: "control \<Rightarrow> browser \<Rightarrow> browser" where
  "on_click Start b = begin_handleStartGame b"
| "on_click PlayAgain b = begin_handleStartGame b"
| "on_click Quit b = b\<lparr>page := handleQuitGame (page b)\<rparr>"
| "on_click (Answer answer) b = begin_handleAnswer answer b"
| "on_click (GuessFeedback correct) b = begin_handleGuessFeedback correct b"
| "on_click OpenAbout b = b\<lparr>page := (page b)\<lparr>showAbout := True\<rparr>\<rparr>"
| "on_click Share b = b"

text \<open>
  What happens to a page: the user clicks a button, which acts if it is on the page and
  not disabled, or the call at some position among those in flight settles.
\<close>

datatype event = Click control | Settle nat "exn + response"

fun step ::
  "(string \<Rightarrow> jsval option) \<Rightarrow> (jsval \<Rightarrow> GameState) \<Rightarrow> browser \<Rightarrow> event \<Rightarrow> browser" where
  "step P cast b (Click c) =
    (if Button c False \<in> set (Index (page b)) then on_click c b else b)"
| "step P cast b (Settle i res) =
    (if i < length (in_flight b) then
       resume P cast (in_flight b ! i) res
         (b\<lparr>in_flight := take i (in_flight b) @ drop (Suc i) (in_flight b)\<rparr>)
     else b)"

definition run ::
  "(string \<Rightarrow> jsval option) \<Rightarrow> (jsval \<Rightarrow> GameState) \<Rightarrow> browser \<Rightarrow> event list \<Rightarrow> browser" where
  "run P cast b events = foldl (step P cast) b events"

text \<open>A game in which the user has just been asked a question.\<close>

definition asked :: browser where
  "asked = \<lparr>page = asking_state, in_flight = [], raised = []\<rparr>"

section \<open>The answer label sent to the server\<close>

lemma mapAnswerToBackend_ui_values:
  "mapAnswerToBackend ''yes'' = Str ''yes''"
  "mapAnswerToBackend ''probably-yes'' = Str ''probably_yes''"
  "mapAnswerToBackend ''maybe'' = Str ''unknown''"
  "mapAnswerToBackend ''probably-no'' = Str ''probably_no''"
  "mapAnswerToBackend ''no'' = Str ''no''"
  by (simp_all add: mapAnswerToBackend_def obj_get_def mapping_def)

text \<open>
  C2. The claim: for every answer string the body of POST /answer is
  \<open>{questionId, answer}\<close> with the answer one of the five backend labels, every string
  outside the five UI values mapping to \<open>unknown\<close>. The lookup \<open>mapping[answer]\<close>
  reaches \<open>Object.prototype\<close>: for the answer \<open>constructor\<close> it finds the function
  \<open>Object\<close>, which is truthy, so the fallback is not taken, and \<open>JSON.stringify\<close>
  leaves a function-valued property out. The body sent is \<open>{questionId: 7}\<close>, with no
  answer at all.
\<close>

theorem submitAnswer_constructor_body:
  "mapAnswerToBackend ''constructor'' = Fun ''Object''
   \<and> fst (submitAnswer P cast net 7 ''constructor'')
       = [Request ''POST'' ''/api/answer'' (Some (Obj [(''questionId'', Num 7)]))]"
  by (simp add: submitAnswer_def answer_request_def mapAnswerToBackend_def obj_get_def
      mapping_def Object_prototype_def API_BASE_def)

section \<open>Feedback on a guess\<close>

text \<open>
  C1. The claim: when the user confirms a guess, POST /guess-feedback with
  \<open>{correct: true}\<close> is issued before the session is treated as finished. With a guess
  pending and nothing in flight, \<open>handleGuessFeedback(true)\<close> shows the result screen
  for the guessed character and issues no request, whatever the network would do.
\<close>

theorem handleGuessFeedback_true_sends_nothing:
  "requests (handleGuessFeedback P cast net True proposing_state) = []
   \<and> gameState (state_after (handleGuessFeedback P cast net True proposing_state)) = result
   \<and> guessedCharacter (state_after (handleGuessFeedback P cast net True proposing_state))
       = Some \<lparr>name_g = ''Perry'', quote = None\<rparr>"
  by (simp add: handleGuessFeedback_def proposing_state_def proposing_response_def
      the_candidate_def)

section \<open>The guards of the handlers\<close>


lemma api_requests:
  "fst (startGame P cast net) = [start_request]"
  "fst (submitAnswer P cast net qid a) = [answer_request qid a]"
  "fst (getNextQuestion P cast net) = [next_question_request]"
  "fst (submitGuessFeedback P cast net c) = [guess_feedback_request c]"
  by (simp_all add: startGame_def submitAnswer_def getNextQuestion_def submitGuessFeedback_def)

lemma request_urls:
  "url start_request = ''/api/start''"
  "url (answer_request qid a) = ''/api/answer''"
  "url next_question_request = ''/api/next-question''"
  "url (guess_feedback_request c) = ''/api/guess-feedback''"
  by (simp_all add: start_request_def answer_request_def next_question_request_def
      guess_feedback_request_def API_BASE_def Let_def)

lemma handleAnswer_guard:
  "\<not> question_pending s \<or> isLoading s \<Longrightarrow> handleAnswer P cast net a s = returned s"
  by (auto simp: handleAnswer_def question_pending_def split: option.splits)

lemma handleGuessFeedback_guard:
  "\<not> guess_pending s \<or> isLoading s \<Longrightarrow> handleGuessFeedback P cast net c s = returned s"
  by (auto simp: handleGuessFeedback_def guess_pending_def split: option.splits)


lemma api_requestsD:
  "startGame P cast net = (rs, res) \<Longrightarrow> rs = [start_request]"
  "submitAnswer P cast net qid a = (rs, res) \<Longrightarrow> rs = [answer_request qid a]"
  "getNextQuestion P cast net = (rs, res) \<Longrightarrow> rs = [next_question_request]"
  "submitGuessFeedback P cast' net c = (rs, res') \<Longrightarrow> rs = [guess_feedback_request c]"
  by (simp_all add: startGame_def submitAnswer_def getNextQuestion_def submitGuessFeedback_def)

lemma handleAnswer_requests:
  "requests (handleAnswer P cast net a s) \<noteq> [] \<Longrightarrow> question_pending s \<and> \<not> isLoading s"
  by (cases "\<not> question_pending s \<or> isLoading s") (simp_all add: handleAnswer_guard returned_def)

lemma handleGuessFeedback_requests:
  "requests (handleGuessFeedback P cast net c s) \<noteq> [] \<Longrightarrow> guess_pending s \<and> \<not> isLoading s"
  by (cases "\<not> guess_pending s \<or> isLoading s")
    (simp_all add: handleGuessFeedback_guard returned_def)

lemma handleStartGame_urls:
  "rq \<in> set (requests (handleStartGame P cast net s)) \<Longrightarrow> url rq \<noteq> ''/api/answer''"
  by (auto simp: handleStartGame_def caught_def request_urls
      split: prod.splits sum.splits dest!: api_requestsD)

lemma handleGuessFeedback_urls:
  "rq \<in> set (requests (handleGuessFeedback P cast net c s)) \<Longrightarrow> url rq \<noteq> ''/api/answer''"
  by (auto simp: handleGuessFeedback_def returned_def caught_def request_urls
      split: option.splits if_splits prod.splits sum.splits dest!: api_requestsD)

text \<open>
  On the state of one render: a handler whose guard fails returns at once, with no request,
  no toast and the state as it was; a handler that sends a request had its guard pass; and
  only \<open>handleAnswer\<close> sends to /api/answer.
\<close>

lemma guards_send_nothing:
  "(\<not> question_pending s \<or> isLoading s \<longrightarrow> handleAnswer P cast net a s = returned s)
   \<and> (\<not> guess_pending s \<or> isLoading s \<longrightarrow> handleGuessFeedback P cast net c s = returned s)
   \<and> (requests (handleAnswer P cast net a s) \<noteq> [] \<longrightarrow> question_pending s \<and> \<not> isLoading s)
   \<and> (requests (handleGuessFeedback P cast net c s) \<noteq> [] \<longrightarrow> guess_pending s \<and> \<not> isLoading s)
   \<and> list_all (\<lambda>rq. url rq \<noteq> ''/api/answer'') (requests (handleGuessFeedback P cast net c s))
   \<and> list_all (\<lambda>rq. url rq \<noteq> ''/api/answer'') (requests (handleStartGame P cast net s))"
proof -
  have "list_all (\<lambda>rq. url rq \<noteq> ''/api/answer'') (requests (handleGuessFeedback P cast net c s))"
    unfolding list_all_iff using handleGuessFeedback_urls by blast
  moreover have "list_all (\<lambda>rq. url rq \<noteq> ''/api/answer'') (requests (handleStartGame P cast net s))"
    unfolding list_all_iff using handleStartGame_urls by blast
  ultimately show ?thesis
    using handleAnswer_guard [of s P cast net a] handleGuessFeedback_guard [of s P cast net c]
      handleAnswer_requests [of P cast net a s] handleGuessFeedback_requests [of P cast net c s]
    by blast
qed

section \<open>The handlers, run to their end\<close>

lemma handleGuessFeedback_false_run:
  assumes "currentState s = Some cs" "guess cs = Some g" "\<not> isLoading s"
  shows "handleGuessFeedback P cast net False s =
    (case snd (submitGuessFeedback P (\<lambda>v. v) net False) of
       Inl e \<Rightarrow> caught s [guess_feedback_request False] e
     | Inr fb \<Rightarrow>
         (case snd (getNextQuestion P (as_GameState cast) net) of
            Inl e \<Rightarrow> caught s [guess_feedback_request False, next_question_request] e
          | Inr newState \<Rightarrow>
              \<lparr>state_after = s\<lparr>currentState := newState, isLoading := False\<rparr>,
               requests = [guess_feedback_request False, next_question_request],
               toasts = []\<rparr>))"
  using assms
  by (simp add: handleGuessFeedback_def submitGuessFeedback_def getNextQuestion_def
      split: sum.splits)

lemma handleAnswer_run:
  assumes "currentState s = Some cs" "question cs = Some q" "\<not> isLoading s"
  shows "handleAnswer P cast net a s =
    (case snd (submitAnswer P (as_GameState cast) net (id_q q) a) of
       Inl e \<Rightarrow> caught s [answer_request (id_q q) a] e
     | Inr newState \<Rightarrow>
         \<lparr>state_after = s\<lparr>currentState := newState, isLoading := False\<rparr>,
          requests = [answer_request (id_q q) a], toasts = []\<rparr>)"
  using assms by (simp add: handleAnswer_def submitAnswer_def split: sum.splits)

lemma handleStartGame_run:
  "handleStartGame P cast net s =
    (case snd (startGame P (as_GameState cast) net) of
       Inl e \<Rightarrow> caught s [start_request] e
     | Inr state \<Rightarrow>
         \<lparr>state_after = s\<lparr>currentState := state, gameState := playing,
                            guessedCharacter := None, isLoading := False\<rparr>,
          requests = [start_request], toasts = []\<rparr>)"
  by (simp add: handleStartGame_def startGame_def split: sum.splits exn.splits)

lemma displayed_caught: "displayed (state_after (caught s rs e)) = displayed s"
  by (simp add: displayed_def caught_def)

lemma displayed_returned: "displayed (state_after (returned s)) = displayed s"
  by (simp add: displayed_def returned_def)

section \<open>Failed calls\<close>

lemma handleStartGame_failed:
  "snd (startGame P (as_GameState cast) net) = Inl e \<Longrightarrow>
     displayed (state_after (handleStartGame P cast net s)) = displayed s
     \<and> toasts (handleStartGame P cast net s) = [error_toast e]"
  by (simp add: handleStartGame_run displayed_caught) (simp add: caught_def)

lemma handleAnswer_failed:
  "currentState s = Some cs \<Longrightarrow> question cs = Some q \<Longrightarrow> \<not> isLoading s \<Longrightarrow>
   snd (submitAnswer P (as_GameState cast) net (id_q q) a) = Inl e \<Longrightarrow>
     displayed (state_after (handleAnswer P cast net a s)) = displayed s
     \<and> toasts (handleAnswer P cast net a s) = [error_toast e]"
  by (simp add: handleAnswer_run displayed_caught) (simp add: caught_def)

lemma handleGuessFeedback_failed_first:
  "currentState s = Some cs \<Longrightarrow> guess cs = Some g \<Longrightarrow> \<not> isLoading s \<Longrightarrow>
   snd (submitGuessFeedback P (\<lambda>v. v) net False) = Inl e \<Longrightarrow>
     displayed (state_after (handleGuessFeedback P cast net False s)) = displayed s
     \<and> toasts (handleGuessFeedback P cast net False s) = [error_toast e]"
  by (simp add: handleGuessFeedback_false_run displayed_caught) (simp add: caught_def)

lemma handleGuessFeedback_failed_second:
  "currentState s = Some cs \<Longrightarrow> guess cs = Some g \<Longrightarrow> \<not> isLoading s \<Longrightarrow>
   \<not> isl (snd (submitGuessFeedback P (\<lambda>v. v) net False)) \<Longrightarrow>
   snd (getNextQuestion P (as_GameState cast) net) = Inl e \<Longrightarrow>
     displayed (state_after (handleGuessFeedback P cast net False s)) = displayed s
     \<and> toasts (handleGuessFeedback P cast net False s) = [error_toast e]"
  by (cases "snd (submitGuessFeedback P (\<lambda>v. v) net False)")
    (simp_all add: handleGuessFeedback_false_run displayed_caught, simp add: caught_def)

lemma handleStartGame_changed:
  "displayed (state_after (handleStartGame P cast net s)) \<noteq> displayed s \<Longrightarrow>
     \<not> isl (snd (startGame P (as_GameState cast) net))"
  by (cases "snd (startGame P (as_GameState cast) net)") (simp_all add: handleStartGame_run displayed_caught)

lemma handleAnswer_changed:
  "currentState s = Some cs \<Longrightarrow> question cs = Some q \<Longrightarrow>
   displayed (state_after (handleAnswer P cast net a s)) \<noteq> displayed s \<Longrightarrow>
     \<not> isl (snd (submitAnswer P (as_GameState cast) net (id_q q) a))"
proof (cases "isLoading s")
  case True
  assume "displayed (state_after (handleAnswer P cast net a s)) \<noteq> displayed s"
  with True show ?thesis
    by (simp add: handleAnswer_guard displayed_returned)
next
  case False
  assume "currentState s = Some cs" "question cs = Some q"
    "displayed (state_after (handleAnswer P cast net a s)) \<noteq> displayed s"
  with False show ?thesis
    by (cases "snd (submitAnswer P (as_GameState cast) net (id_q q) a)")
      (simp_all add: handleAnswer_run displayed_caught)
qed

lemma handleGuessFeedback_changed:
  assumes "displayed (state_after (handleGuessFeedback P cast net False s)) \<noteq> displayed s"
  shows "\<not> isl (snd (submitGuessFeedback P (\<lambda>v. v) net False))
     \<and> \<not> isl (snd (getNextQuestion P (as_GameState cast) net))"
proof -
  have "guess_pending s \<and> \<not> isLoading s"
    using assms
    by (cases "\<not> guess_pending s \<or> isLoading s")
      (simp_all add: handleGuessFeedback_guard displayed_returned)
  then obtain cs g where "currentState s = Some cs" "guess cs = Some g" "\<not> isLoading s"
    by (auto simp: guess_pending_def split: option.splits)
  with assms show ?thesis
    by (cases "snd (submitGuessFeedback P (\<lambda>v. v) net False)";
        cases "snd (getNextQuestion P (as_GameState cast) net)")
      (simp_all add: handleGuessFeedback_false_run displayed_caught)
qed

text \<open>
  C9. If a call made by \<open>handleStartGame\<close>, \<open>handleAnswer\<close> or
  \<open>handleGuessFeedback(false)\<close> throws, then \<open>gameState\<close>, \<open>currentState\<close> and
  \<open>guessedCharacter\<close> are what they were and exactly one toast, carrying the error,
  is raised. Conversely, where one of these handlers has changed what is displayed,
  every call it made has succeeded.
\<close>

theorem failed_call_keeps_display:
  "(snd (startGame P (as_GameState cast) net) = Inl e \<longrightarrow>
      displayed (state_after (handleStartGame P cast net s)) = displayed s
      \<and> toasts (handleStartGame P cast net s) = [error_toast e])
   \<and> (currentState s = Some cs \<and> question cs = Some q \<and> \<not> isLoading s
       \<and> snd (submitAnswer P (as_GameState cast) net (id_q q) a) = Inl e \<longrightarrow>
      displayed (state_after (handleAnswer P cast net a s)) = displayed s
      \<and> toasts (handleAnswer P cast net a s) = [error_toast e])
   \<and> (currentState s = Some cs \<and> guess cs = Some g \<and> \<not> isLoading s
       \<and> snd (submitGuessFeedback P (\<lambda>v. v) net False) = Inl e \<longrightarrow>
      displayed (state_after (handleGuessFeedback P cast net False s)) = displayed s
      \<and> toasts (handleGuessFeedback P cast net False s) = [error_toast e])
   \<and> (currentState s = Some cs \<and> guess cs = Some g \<and> \<not> isLoading s
       \<and> \<not> isl (snd (submitGuessFeedback P (\<lambda>v. v) net False))
       \<and> snd (getNextQuestion P (as_GameState cast) net) = Inl e \<longrightarrow>
      displayed (state_after (handleGuessFeedback P cast net False s)) = displayed s
      \<and> toasts (handleGuessFeedback P cast net False s) = [error_toast e])
   \<and> (displayed (state_after (handleStartGame P cast net s)) \<noteq> displayed s \<longrightarrow>
      \<not> isl (snd (startGame P (as_GameState cast) net)))
   \<and> (currentState s = Some cs \<and> question cs = Some q
       \<and> displayed (state_after (handleAnswer P cast net a s)) \<noteq> displayed s \<longrightarrow>
      \<not> isl (snd (submitAnswer P (as_GameState cast) net (id_q q) a)))
   \<and> (displayed (state_after (handleGuessFeedback P cast net False s)) \<noteq> displayed s \<longrightarrow>
      \<not> isl (snd (submitGuessFeedback P (\<lambda>v. v) net False))
      \<and> \<not> isl (snd (getNextQuestion P (as_GameState cast) net)))"
  using handleStartGame_failed [of P cast net e s]
    handleAnswer_failed [of s cs q P cast net a e]
    handleGuessFeedback_failed_first [of s cs g P net e cast]
    handleGuessFeedback_failed_second [of s cs g P net cast e]
    handleStartGame_changed [of P cast net s]
    handleAnswer_changed [of s cs q P cast net a]
    handleGuessFeedback_changed [of P cast net s]
  by blast

theorem failed_call_keeps_display_witness:
  "snd (startGame parse_any (as_GameState (\<lambda>v. proposing_response)) offline) = Inl (Error (Lit cannot_connect))
   \<and> displayed (state_after (handleStartGame parse_any (\<lambda>v. proposing_response) offline
         asking_state)) = displayed asking_state
   \<and> snd (submitAnswer parse_any (as_GameState (\<lambda>v. proposing_response)) offline (id_q the_question) ''yes'')
       = Inl (TypeError ''Failed to fetch'')
   \<and> toasts (handleAnswer parse_any (\<lambda>v. proposing_response) offline ''yes'' asking_state)
       = [error_toast (TypeError ''Failed to fetch'')]
   \<and> snd (submitGuessFeedback parse_any (\<lambda>v. v) offline False)
       = Inl (TypeError ''Failed to fetch'')
   \<and> displayed (state_after (handleGuessFeedback parse_any (\<lambda>v. asking_response) offline False
         proposing_state)) = displayed proposing_state
   \<and> \<not> isl (snd (submitGuessFeedback parse_any (\<lambda>v. v) flaky False))
   \<and> snd (getNextQuestion parse_any (as_GameState (\<lambda>v. asking_response)) flaky)
       = Inl (TypeError ''Failed to fetch'')
   \<and> displayed (state_after (handleGuessFeedback parse_any (\<lambda>v. asking_response) flaky False
         proposing_state)) = displayed proposing_state
   \<and> displayed (state_after (handleStartGame parse_any (\<lambda>v. proposing_response) serving
         asking_state)) \<noteq> displayed asking_state
   \<and> \<not> isl (snd (startGame parse_any (as_GameState (\<lambda>v. proposing_response)) serving))
   \<and> displayed (state_after (handleAnswer parse_any (\<lambda>v. proposing_response) serving ''yes''
         asking_state)) \<noteq> displayed asking_state
   \<and> \<not> isl (snd (submitAnswer parse_any (as_GameState (\<lambda>v. proposing_response)) serving (id_q the_question)
         ''yes''))
   \<and> displayed (state_after (handleGuessFeedback parse_any (\<lambda>v. asking_response) serving False
         proposing_state)) \<noteq> displayed proposing_state
   \<and> \<not> isl (snd (getNextQuestion parse_any (as_GameState (\<lambda>v. asking_response)) serving))"
proof -
  have st: "currentState asking_state = Some asking_response"
    "question asking_response = Some the_question" "\<not> isLoading asking_state"
    "currentState proposing_state = Some proposing_response"
    "guess proposing_response = Some the_candidate" "\<not> isLoading proposing_state"
    by (simp_all add: asking_state_def asking_response_def proposing_state_def
        proposing_response_def)
  have ne: "asking_response \<noteq> proposing_response"
    by (simp add: asking_response_def proposing_response_def)
  have off: "snd (startGame parse_any (as_GameState (\<lambda>v. proposing_response)) offline)
      = Inl (Error (Lit cannot_connect))"
    "snd (submitAnswer parse_any (as_GameState (\<lambda>v. proposing_response)) offline (id_q the_question) ''yes'')
      = Inl (TypeError ''Failed to fetch'')"
    "snd (submitGuessFeedback parse_any (\<lambda>v. v) offline False)
      = Inl (TypeError ''Failed to fetch'')"
    by (simp_all add: startGame_def submitAnswer_def submitGuessFeedback_def after_fetch_def
        offline_def)
  have fl: "\<not> isl (snd (submitGuessFeedback parse_any (\<lambda>v. v) flaky False))"
    "snd (getNextQuestion parse_any (as_GameState (\<lambda>v. asking_response)) flaky)
      = Inl (TypeError ''Failed to fetch'')"
    by (simp_all add: submitGuessFeedback_def getNextQuestion_def after_fetch_def flaky_def
        offline_def serving_def guess_feedback_request_def next_question_request_def
        API_BASE_def ok_def parseJsonResponse_def parse_any_def)
  have sv: "snd (startGame parse_any (as_GameState (\<lambda>v. proposing_response)) serving) = Inr (Some proposing_response)"
    "snd (submitAnswer parse_any (as_GameState (\<lambda>v. proposing_response)) serving (id_q the_question) ''yes'')
      = Inr (Some proposing_response)"
    "snd (submitGuessFeedback parse_any (\<lambda>v. v) serving False) = Inr (Obj [])"
    "snd (getNextQuestion parse_any (as_GameState (\<lambda>v. asking_response)) serving) = Inr (Some asking_response)"
    by (simp_all add: startGame_def submitAnswer_def submitGuessFeedback_def getNextQuestion_def
        after_fetch_def serving_def ok_def parseJsonResponse_def parse_any_def
        as_GameState_def)
  have ch: "displayed (state_after (handleStartGame parse_any (\<lambda>v. proposing_response) serving
        asking_state)) \<noteq> displayed asking_state"
    "displayed (state_after (handleAnswer parse_any (\<lambda>v. proposing_response) serving ''yes''
        asking_state)) \<noteq> displayed asking_state"
    "displayed (state_after (handleGuessFeedback parse_any (\<lambda>v. asking_response) serving False
        proposing_state)) \<noteq> displayed proposing_state"
    using ne
    by (simp_all add: handleStartGame_run handleAnswer_run [OF st(1,2,3)]
        handleGuessFeedback_false_run [OF st(4,5,6)] sv displayed_def st)
  note t1 = failed_call_keeps_display
    [of parse_any "\<lambda>v. proposing_response" offline "Error (Lit cannot_connect)" asking_state
      asking_response the_question "''yes''" the_candidate]
  note t2 = failed_call_keeps_display
    [of parse_any "\<lambda>v. proposing_response" offline "TypeError ''Failed to fetch''" asking_state
      asking_response the_question "''yes''" the_candidate]
  note t3 = failed_call_keeps_display
    [of parse_any "\<lambda>v. asking_response" offline "TypeError ''Failed to fetch''" proposing_state
      proposing_response the_question "''yes''" the_candidate]
  note t4 = failed_call_keeps_display
    [of parse_any "\<lambda>v. asking_response" flaky "TypeError ''Failed to fetch''" proposing_state
      proposing_response the_question "''yes''" the_candidate]
  note t5 = failed_call_keeps_display
    [of parse_any "\<lambda>v. proposing_response" serving "TypeError ''Failed to fetch''" asking_state
      asking_response the_question "''yes''" the_candidate]
  note t6 = failed_call_keeps_display
    [of parse_any "\<lambda>v. asking_response" serving "TypeError ''Failed to fetch''" proposing_state
      proposing_response the_question "''yes''" the_candidate]
  have c1: "displayed (state_after (handleStartGame parse_any (\<lambda>v. proposing_response) offline
        asking_state)) = displayed asking_state"
    using off(1) t1 by blast
  have c2: "toasts (handleAnswer parse_any (\<lambda>v. proposing_response) offline ''yes'' asking_state)
      = [error_toast (TypeError ''Failed to fetch'')]"
    using off(2) st(1,2,3) t2 by blast
  have c3: "displayed (state_after (handleGuessFeedback parse_any (\<lambda>v. asking_response) offline
        False proposing_state)) = displayed proposing_state"
    using off(3) st(4,5,6) t3 by blast
  have c4: "displayed (state_after (handleGuessFeedback parse_any (\<lambda>v. asking_response) flaky
        False proposing_state)) = displayed proposing_state"
    using fl st(4,5,6) t4 by blast
  have c5: "\<not> isl (snd (startGame parse_any (as_GameState (\<lambda>v. proposing_response)) serving))"
    using ch(1) t5 by blast
  have c6: "\<not> isl (snd (submitAnswer parse_any (as_GameState (\<lambda>v. proposing_response)) serving
        (id_q the_question) ''yes''))"
    using ch(2) st(1,2) t5 by blast
  have c7: "\<not> isl (snd (getNextQuestion parse_any (as_GameState (\<lambda>v. asking_response)) serving))"
    using ch(3) t6 by blast
  show ?thesis
    by (intro conjI) (rule off fl ch c1 c2 c3 c4 c5 c6 c7)+
qed

section \<open>Which screen is shown\<close>

lemma controls_append: "controls (xs @ ys) = controls xs @ controls ys"
  by (induction xs rule: controls.induct) simp_all

lemma controls_answer_buttons:
  "controls (map (\<lambda>a. Button (Answer (fst a)) d) as) = map (\<lambda>a. Answer (fst a)) as"
  by (induction as) simp_all

lemma GameScreen_guess:
  "guess_p props = Some g \<Longrightarrow>
     controls (GameScreen props) = [Quit, GuessFeedback True, GuessFeedback False]"
  by (simp add: GameScreen_def Let_def)

lemma GameScreen_no_guess:
  "guess_p props = None \<Longrightarrow> \<not> list_ex is_guess_feedback (controls (GameScreen props))"
  by (simp add: GameScreen_def Let_def controls_append controls_answer_buttons answers_def
      split: option.splits)

lemma GameScreen_guess_elements:
  "guess_p props = Some g \<Longrightarrow> \<not> list_ex is_question_text (GameScreen props)"
  by (simp add: GameScreen_def Let_def)

lemma controls_Index:
  "controls (Index s) =
    (if gameState s = landing then [OpenAbout, Start] else [])
    @ (case currentState s of
         Some cs \<Rightarrow>
           if gameState s = playing then
             controls (GameScreen
               \<lparr>question_p =
                  (case question cs of
                     None \<Rightarrow> None
                   | Some q \<Rightarrow> if text_q q = [] then None else Some (text_q q)),
                questionNumber_p = questionNumber cs,
                entropy_p = Some (entropy cs),
                guess_p = guess cs,
                isLoading_p = Some (isLoading s)\<rparr>)
           else []
       | None \<Rightarrow> [])
    @ (if gameState s = result \<and> guessedCharacter s \<noteq> None then [PlayAgain, Share] else [])"
  by (simp add: Index_def controls_append LandingScreen_def ResultScreen_def
      split: option.splits)

lemma presents_iff:
  "presents_guess_confirmation s = (gameState s = playing \<and> guess_pending s)"
  by (cases "gameState s"; cases "currentState s")
    (auto simp: presents_guess_confirmation_def controls_Index guess_pending_def
      GameScreen_guess dest: GameScreen_no_guess [THEN notE, rotated])

lemma confirmed_state_eq:
  "confirmed_state =
    proposing_state\<lparr>guessedCharacter := Some \<lparr>name_g = ''Perry'', quote = None\<rparr>,
                    gameState := result, isLoading := False\<rparr>"
  by (simp add: confirmed_state_def handleGuessFeedback_def proposing_state_def
      proposing_response_def the_candidate_def)

text \<open>
  C3, as stated: the client presents the guess-confirmation interaction if and only if
  the current state's guess is non-null. After the user has confirmed a guess,
  \<open>currentState\<close> still holds that guess while the result screen is shown, so the
  equivalence fails there.
\<close>

theorem guess_pending_on_result_screen:
  "\<not> (presents_guess_confirmation confirmed_state \<longleftrightarrow> guess_pending confirmed_state)"
  by (simp add: presents_iff confirmed_state_eq)
    (simp add: guess_pending_def proposing_state_def proposing_response_def)

text \<open>
  C3, amended: the guess field of a response is non-null exactly when the Guess Policy is
  in the proposing state; correspondingly, while the game is being played (\<open>gameState\<close>
  is \<open>playing\<close>), the client presents the guess-confirmation interaction, and no other
  interaction, if and only if the current state's guess field is non-null. So a client
  playing on a response of the policy presents the confirmation exactly in the proposing
  state.
\<close>

theorem guess_confirmation_presented:
  "(response_guess p \<noteq> None \<longleftrightarrow> in_proposing p)
   \<and> (presents_guess_confirmation s \<longleftrightarrow> gameState s = playing \<and> guess_pending s)
   \<and> (presents_guess_confirmation s \<longrightarrow>
        controls (Index s) = [Quit, GuessFeedback True, GuessFeedback False]
        \<and> \<not> list_ex is_answer (controls (Index s))
        \<and> \<not> list_ex is_question_text (Index s))
   \<and> (gameState s = playing \<and> currentState s = Some cs \<and> guess cs = response_guess p \<longrightarrow>
        (presents_guess_confirmation s \<longleftrightarrow> in_proposing p))"
proof -
  have policy: "response_guess p \<noteq> None \<longleftrightarrow> in_proposing p"
    by (cases p) simp_all
  have only: "controls (Index s) = [Quit, GuessFeedback True, GuessFeedback False]
      \<and> \<not> list_ex is_answer (controls (Index s)) \<and> \<not> list_ex is_question_text (Index s)"
    if "gameState s = playing" "guess_pending s"
  proof -
    have "controls (Index s) = [Quit, GuessFeedback True, GuessFeedback False]"
      using that
      by (auto simp: controls_Index guess_pending_def GameScreen_guess split: option.splits)
    moreover have "\<not> list_ex is_question_text (Index s)"
      using that
      by (auto simp: Index_def guess_pending_def GameScreen_guess_elements
          split: option.splits)
    ultimately show ?thesis by simp
  qed
  have linked: "presents_guess_confirmation s \<longleftrightarrow> in_proposing p"
    if "gameState s = playing" "currentState s = Some cs" "guess cs = response_guess p"
    using that policy by (simp add: presents_iff guess_pending_def)
  show ?thesis
    using policy only linked presents_iff [of s] by blast
qed

theorem guess_confirmation_presented_witness:
  "in_proposing (proposing the_candidate)
   \<and> response_guess (proposing the_candidate) \<noteq> None
   \<and> gameState proposing_state = playing
   \<and> currentState proposing_state = Some proposing_response
   \<and> guess proposing_response = response_guess (proposing the_candidate)
   \<and> guess_pending proposing_state
   \<and> presents_guess_confirmation proposing_state
   \<and> controls (Index proposing_state) = [Quit, GuessFeedback True, GuessFeedback False]
   \<and> \<not> list_ex is_answer (controls (Index proposing_state))"
proof -
  have h: "gameState proposing_state = playing"
    "currentState proposing_state = Some proposing_response"
    "guess proposing_response = response_guess (proposing the_candidate)"
    "guess_pending proposing_state" "in_proposing (proposing the_candidate)"
    by (simp_all add: guess_pending_def proposing_state_def proposing_response_def)
  note t = guess_confirmation_presented
    [of "proposing the_candidate" proposing_state proposing_response]
  have c1: "response_guess (proposing the_candidate) \<noteq> None"
    using h(5) t by blast
  have c2: "presents_guess_confirmation proposing_state"
    using h(1,4) t by blast
  have c3: "controls (Index proposing_state) = [Quit, GuessFeedback True, GuessFeedback False]"
    "\<not> list_ex is_answer (controls (Index proposing_state))"
    using c2 t by blast+
  show ?thesis
    by (intro conjI) (rule h c1 c2 c3)+
qed

text \<open>
  C10. With a non-null guess, GameScreen renders the guess view: its buttons are Quit and
  the two feedback buttons, with no answer button and no question text. An answer button
  or a question text is rendered only when the guess is null; and whatever screen the page
  shows, it shows no answer button while the current state holds a guess.
\<close>

theorem no_answer_buttons_beside_a_guess:
  "(guess_p props = Some g \<longrightarrow>
      controls (GameScreen props) = [Quit, GuessFeedback True, GuessFeedback False]
      \<and> \<not> list_ex is_answer (controls (GameScreen props))
      \<and> \<not> list_ex is_question_text (GameScreen props))
   \<and> (list_ex is_answer (controls (GameScreen props)) \<or> list_ex is_question_text (GameScreen props)
        \<longrightarrow> guess_p props = None)
   \<and> (guess_pending s \<longrightarrow> \<not> list_ex is_answer (controls (Index s)))"
proof -
  have a: "controls (GameScreen props) = [Quit, GuessFeedback True, GuessFeedback False]
      \<and> \<not> list_ex is_answer (controls (GameScreen props))
      \<and> \<not> list_ex is_question_text (GameScreen props)" if "guess_p props = Some g" for g
    using that by (simp add: GameScreen_guess GameScreen_guess_elements)
  have b: "\<not> list_ex is_answer (controls (Index s))" if "guess_pending s"
    using that
    by (cases "gameState s")
      (auto simp: controls_Index guess_pending_def GameScreen_guess split: option.splits)
  show ?thesis
    using a b by (cases "guess_p props") auto
qed

theorem no_answer_buttons_beside_a_guess_witness:
  "guess_p \<lparr>question_p = Some ''Can they fly?'', questionNumber_p = 2, entropy_p = Some 1,
            guess_p = Some the_candidate, isLoading_p = Some False\<rparr> = Some the_candidate
   \<and> controls (GameScreen \<lparr>question_p = Some ''Can they fly?'', questionNumber_p = 2,
        entropy_p = Some 1, guess_p = Some the_candidate, isLoading_p = Some False\<rparr>)
       = [Quit, GuessFeedback True, GuessFeedback False]
   \<and> list_ex is_answer (controls (GameScreen \<lparr>question_p = Some ''Can they fly?'',
        questionNumber_p = 2, entropy_p = Some 1, guess_p = None, isLoading_p = Some False\<rparr>))
   \<and> guess_p \<lparr>question_p = Some ''Can they fly?'', questionNumber_p = 2, entropy_p = Some 1,
              guess_p = None, isLoading_p = Some False\<rparr> = None
   \<and> guess_pending proposing_state
   \<and> \<not> list_ex is_answer (controls (Index proposing_state))"
proof -
  have h: "list_ex is_answer (controls (GameScreen \<lparr>question_p = Some ''Can they fly?'',
      questionNumber_p = 2, entropy_p = Some 1, guess_p = None, isLoading_p = Some False\<rparr>))"
    by (simp add: GameScreen_def answers_def)
  have p: "guess_pending proposing_state"
    by (simp add: guess_pending_def proposing_state_def proposing_response_def)
  note t1 = no_answer_buttons_beside_a_guess
    [of "\<lparr>question_p = Some ''Can they fly?'', questionNumber_p = 2, entropy_p = Some 1,
          guess_p = Some the_candidate, isLoading_p = Some False\<rparr>" the_candidate proposing_state]
  note t2 = no_answer_buttons_beside_a_guess
    [of "\<lparr>question_p = Some ''Can they fly?'', questionNumber_p = 2, entropy_p = Some 1,
          guess_p = None, isLoading_p = Some False\<rparr>" the_candidate proposing_state]
  have c1: "controls (GameScreen \<lparr>question_p = Some ''Can they fly?'', questionNumber_p = 2,
        entropy_p = Some 1, guess_p = Some the_candidate, isLoading_p = Some False\<rparr>)
       = [Quit, GuessFeedback True, GuessFeedback False]"
    using t1 by simp
  have c2: "guess_p \<lparr>question_p = Some ''Can they fly?'', questionNumber_p = 2,
      entropy_p = Some 1, guess_p = None, isLoading_p = Some False\<rparr> = None"
    using h t2 by blast
  have c3: "\<not> list_ex is_answer (controls (Index proposing_state))"
    using p t1 by blast
  show ?thesis
    using h p c1 c2 c3 by simp
qed


section \<open>A rejected guess\<close>

lemma after_fetch_parsed:
  "res = Inr r \<Longrightarrow> ok r \<Longrightarrow> text_r r \<noteq> [] \<Longrightarrow> P (text_r r) = Some v \<Longrightarrow>
     after_fetch P cast fb res = Inr (cast v)"
  by (simp add: after_fetch_def parseJsonResponse_def Let_def)

lemma Index_question_view:
  assumes "gameState s = playing" "currentState s = Some ns" "guess ns = None"
    "question ns = Some q" "text_q q \<noteq> []"
  shows "controls (Index s) =
      [Quit, Answer ''yes'', Answer ''probably-yes'', Answer ''maybe'', Answer ''probably-no'',
       Answer ''no'']"
    and "QuestionText (text_q q) \<in> set (Index s)"
proof -
  show "controls (Index s) =
      [Quit, Answer ''yes'', Answer ''probably-yes'', Answer ''maybe'', Answer ''probably-no'',
       Answer ''no'']"
    using assms
    by (simp add: controls_Index GameScreen_def Let_def controls_append
        controls_answer_buttons answers_def)
  show "QuestionText (text_q q) \<in> set (Index s)"
    using assms by (simp add: Index_def GameScreen_def Let_def)
qed

text \<open>
  C5, as stated: after every negative guess feedback the client issues POST
  /guess-feedback, then POST /next-question, adopts the response, and asking resumes
  with a fresh question. When the first call fails, no second request is issued and the
  guess stays on the page; and when the server answers POST /next-question with a state
  that holds a guess and no question, the client adopts it and no question is asked.
\<close>

theorem rejected_guess_without_next_question:
  "requests (handleGuessFeedback parse_any (\<lambda>v. asking_response) offline False proposing_state)
     = [Request ''POST'' ''/api/guess-feedback'' (Some (Obj [(''correct'', Bool False)]))]
   \<and> currentState (state_after (handleGuessFeedback parse_any (\<lambda>v. asking_response) offline
         False proposing_state)) = Some proposing_response
   \<and> currentState (state_after (handleGuessFeedback parse_any (\<lambda>v. proposing_response) serving
         False proposing_state)) = Some proposing_response
   \<and> \<not> list_ex is_answer (controls (Index (state_after (handleGuessFeedback parse_any
         (\<lambda>v. proposing_response) serving False proposing_state))))"
proof -
  have st: "currentState proposing_state = Some proposing_response"
    "guess proposing_response = Some the_candidate" "\<not> isLoading proposing_state"
    by (simp_all add: proposing_state_def proposing_response_def)
  have off: "handleGuessFeedback parse_any (\<lambda>v. asking_response) offline False proposing_state
      = caught proposing_state [guess_feedback_request False] (TypeError ''Failed to fetch'')"
    by (simp add: handleGuessFeedback_false_run [OF st] submitGuessFeedback_def after_fetch_def
        offline_def)
  have on: "handleGuessFeedback parse_any (\<lambda>v. proposing_response) serving False proposing_state
      = \<lparr>state_after = proposing_state\<lparr>currentState := Some proposing_response,
                                          isLoading := False\<rparr>,
         requests = [guess_feedback_request False, next_question_request], toasts = []\<rparr>"
    by (simp add: handleGuessFeedback_false_run [OF st] submitGuessFeedback_def
        getNextQuestion_def after_fetch_def serving_def ok_def parseJsonResponse_def
        parse_any_def as_GameState_def)
  have pend: "guess_pending (proposing_state\<lparr>currentState := Some proposing_response,
      isLoading := False\<rparr>)"
    by (simp add: guess_pending_def proposing_response_def)
  have shown: "\<not> list_ex is_answer (controls (Index (proposing_state\<lparr>currentState :=
      Some proposing_response, isLoading := False\<rparr>)))"
    using pend
    by (cases "gameState proposing_state")
      (auto simp: controls_Index guess_pending_def GameScreen_guess split: option.splits)
  show ?thesis
    using st(1) shown
    by (simp add: off on caught_def guess_feedback_request_def API_BASE_def)
qed

text \<open>
  C5, amended: with a guess pending and nothing in flight, a negative guess feedback
  first issues POST /guess-feedback with body \<open>{correct: false}\<close>. If the server
  answers that call with a 2xx status and a JSON body, the client then issues POST
  /next-question; if the server answers that one with a 2xx status and a JSON body too,
  the client adopts this body as the current state (\<open>null\<close> for a body of \<open>null\<close>) and
  raises no toast. Asking resumes with the question that the adopted state carries: when
  the game is being played and the adopted state holds no guess and a question with a
  non-empty text, the page shows this text and the five answer buttons. If the first call
  throws, it is the only request.
\<close>

theorem negative_feedback_then_next_question:
  "currentState s = Some cs \<and> guess cs = Some g \<and> \<not> isLoading s \<longrightarrow>
     take 1 (requests (handleGuessFeedback P cast net False s))
       = [Request ''POST'' ''/api/guess-feedback'' (Some (Obj [(''correct'', Bool False)]))]
     \<and> (net (guess_feedback_request False) = Inr r1 \<and> ok r1 \<and> text_r r1 \<noteq> []
          \<and> P (text_r r1) = Some v1 \<longrightarrow>
          requests (handleGuessFeedback P cast net False s)
            = [Request ''POST'' ''/api/guess-feedback'' (Some (Obj [(''correct'', Bool False)])),
               Request ''POST'' ''/api/next-question'' None]
          \<and> (net next_question_request = Inr r2 \<and> ok r2 \<and> text_r r2 \<noteq> []
               \<and> P (text_r r2) = Some v2 \<longrightarrow>
               state_after (handleGuessFeedback P cast net False s)
                 = s\<lparr>currentState := as_GameState cast v2, isLoading := False\<rparr>
               \<and> toasts (handleGuessFeedback P cast net False s) = []
               \<and> (gameState s = playing \<and> as_GameState cast v2 = Some ns \<and> guess ns = None
                    \<and> question ns = Some q \<and> text_q q \<noteq> [] \<longrightarrow>
                    controls (Index (state_after (handleGuessFeedback P cast net False s)))
                      = [Quit, Answer ''yes'', Answer ''probably-yes'', Answer ''maybe'',
                         Answer ''probably-no'', Answer ''no'']
                    \<and> QuestionText (text_q q)
                         \<in> set (Index (state_after (handleGuessFeedback P cast net False s))))))
     \<and> (isl (snd (submitGuessFeedback P (\<lambda>v. v) net False)) \<longrightarrow>
          requests (handleGuessFeedback P cast net False s)
            = [Request ''POST'' ''/api/guess-feedback'' (Some (Obj [(''correct'', Bool False)]))]
          \<and> displayed (state_after (handleGuessFeedback P cast net False s)) = displayed s)"
proof (intro impI)
  assume "currentState s = Some cs \<and> guess cs = Some g \<and> \<not> isLoading s"
  then have guard: "currentState s = Some cs" "guess cs = Some g" "\<not> isLoading s"
    by simp_all
  note run = handleGuessFeedback_false_run [OF guard, of P cast net]
  let ?H = "handleGuessFeedback P cast net False s"
  let ?fb = "Request ''POST'' ''/api/guess-feedback'' (Some (Obj [(''correct'', Bool False)]))"
  let ?nq = "Request ''POST'' ''/api/next-question'' None"
  have rq: "guess_feedback_request False = ?fb" "next_question_request = ?nq"
    by (simp_all add: guess_feedback_request_def next_question_request_def API_BASE_def)
  have first: "take 1 (requests ?H) = [?fb]"
    by (simp add: run caught_def rq split: sum.splits)
  have failed: "requests ?H = [?fb] \<and> displayed (state_after ?H) = displayed s"
    if "isl (snd (submitGuessFeedback P (\<lambda>v. v) net False))"
    using that
    by (cases "snd (submitGuessFeedback P (\<lambda>v. v) net False)")
      (simp_all add: run displayed_caught, simp add: caught_def rq)
  have sent: "requests ?H = [?fb, ?nq]"
    if "net (guess_feedback_request False) = Inr r1" "ok r1" "text_r r1 \<noteq> []"
      "P (text_r r1) = Some v1"
  proof -
    have "snd (submitGuessFeedback P (\<lambda>v. v) net False) = Inr v1"
      using that by (simp add: submitGuessFeedback_def after_fetch_parsed)
    then show ?thesis
      by (simp add: run caught_def rq split: sum.splits)
  qed
  have adopted: "state_after ?H = s\<lparr>currentState := as_GameState cast v2, isLoading := False\<rparr>
      \<and> toasts ?H = []"
    if "net (guess_feedback_request False) = Inr r1" "ok r1" "text_r r1 \<noteq> []"
      "P (text_r r1) = Some v1"
      "net next_question_request = Inr r2" "ok r2" "text_r r2 \<noteq> []" "P (text_r r2) = Some v2"
  proof -
    have "snd (submitGuessFeedback P (\<lambda>v. v) net False) = Inr v1"
      using that(1-4) by (simp add: submitGuessFeedback_def after_fetch_parsed)
    moreover have "snd (getNextQuestion P (as_GameState cast) net) = Inr (as_GameState cast v2)"
      using that(5-8) by (simp add: getNextQuestion_def after_fetch_parsed)
    ultimately show ?thesis
      by (simp add: run)
  qed
  have resumed: "controls (Index (s\<lparr>currentState := as_GameState cast v2, isLoading := False\<rparr>))
        = [Quit, Answer ''yes'', Answer ''probably-yes'', Answer ''maybe'',
           Answer ''probably-no'', Answer ''no'']
      \<and> QuestionText (text_q q)
           \<in> set (Index (s\<lparr>currentState := as_GameState cast v2, isLoading := False\<rparr>))"
    if "gameState s = playing" "as_GameState cast v2 = Some ns" "guess ns = None"
      "question ns = Some q" "text_q q \<noteq> []"
    using Index_question_view
      [of "s\<lparr>currentState := as_GameState cast v2, isLoading := False\<rparr>" ns q] that
    by simp
  show "take 1 (requests ?H) = [?fb]
     \<and> (net (guess_feedback_request False) = Inr r1 \<and> ok r1 \<and> text_r r1 \<noteq> []
          \<and> P (text_r r1) = Some v1 \<longrightarrow>
          requests ?H = [?fb, ?nq]
          \<and> (net next_question_request = Inr r2 \<and> ok r2 \<and> text_r r2 \<noteq> []
               \<and> P (text_r r2) = Some v2 \<longrightarrow>
               state_after ?H = s\<lparr>currentState := as_GameState cast v2, isLoading := False\<rparr>
               \<and> toasts ?H = []
               \<and> (gameState s = playing \<and> as_GameState cast v2 = Some ns \<and> guess ns = None
                    \<and> question ns = Some q \<and> text_q q \<noteq> [] \<longrightarrow>
                    controls (Index (state_after ?H))
                      = [Quit, Answer ''yes'', Answer ''probably-yes'', Answer ''maybe'',
                         Answer ''probably-no'', Answer ''no'']
                    \<and> QuestionText (text_q q) \<in> set (Index (state_after ?H)))))
     \<and> (isl (snd (submitGuessFeedback P (\<lambda>v. v) net False)) \<longrightarrow>
          requests ?H = [?fb] \<and> displayed (state_after ?H) = displayed s)"
    using first failed sent adopted resumed by metis
qed

theorem negative_feedback_then_next_question_witness:
  "currentState proposing_state = Some proposing_response
   \<and> guess proposing_response = Some the_candidate
   \<and> \<not> isLoading proposing_state
   \<and> serving (guess_feedback_request False) = Inr \<lparr>status = 200, statusText = ''OK'', text_r = ''B''\<rparr>
   \<and> serving next_question_request = Inr \<lparr>status = 200, statusText = ''OK'', text_r = ''B''\<rparr>
   \<and> ok \<lparr>status = 200, statusText = ''OK'', text_r = ''B''\<rparr>
   \<and> parse_any ''B'' = Some (Obj [])
   \<and> gameState proposing_state = playing
   \<and> as_GameState (\<lambda>v. asking_response) (Obj []) = Some asking_response
   \<and> guess asking_response = None
   \<and> question asking_response = Some the_question
   \<and> text_q the_question \<noteq> []
   \<and> requests (handleGuessFeedback parse_any (\<lambda>v. asking_response) serving False proposing_state)
       = [Request ''POST'' ''/api/guess-feedback'' (Some (Obj [(''correct'', Bool False)])),
          Request ''POST'' ''/api/next-question'' None]
   \<and> state_after (handleGuessFeedback parse_any (\<lambda>v. asking_response) serving False proposing_state)
       = proposing_state\<lparr>currentState := Some asking_response, isLoading := False\<rparr>
   \<and> controls (Index (state_after (handleGuessFeedback parse_any (\<lambda>v. asking_response) serving False proposing_state)))
       = [Quit, Answer ''yes'', Answer ''probably-yes'', Answer ''maybe'', Answer ''probably-no'',
        Answer ''no'']
   \<and> isl (snd (submitGuessFeedback parse_any (\<lambda>v. v) offline False))
   \<and> requests (handleGuessFeedback parse_any (\<lambda>v. asking_response) offline False proposing_state)
       = [Request ''POST'' ''/api/guess-feedback'' (Some (Obj [(''correct'', Bool False)]))]"
proof -
  have g: "currentState proposing_state = Some proposing_response"
    "guess proposing_response = Some the_candidate" "\<not> isLoading proposing_state"
    "gameState proposing_state = playing"
    by (simp_all add: proposing_state_def proposing_response_def)
  have n: "serving (guess_feedback_request False) = Inr \<lparr>status = 200, statusText = ''OK'', text_r = ''B''\<rparr>"
    "serving next_question_request = Inr \<lparr>status = 200, statusText = ''OK'', text_r = ''B''\<rparr>"
    "ok \<lparr>status = 200, statusText = ''OK'', text_r = ''B''\<rparr>"
    "text_r \<lparr>status = 200, statusText = ''OK'', text_r = ''B''\<rparr> \<noteq> []"
    "parse_any (text_r \<lparr>status = 200, statusText = ''OK'', text_r = ''B''\<rparr>) = Some (Obj [])"
    "parse_any ''B'' = Some (Obj [])"
    by (simp_all add: serving_def ok_def parse_any_def)
  have a: "as_GameState (\<lambda>v. asking_response) (Obj []) = Some asking_response"
    "guess asking_response = None" "question asking_response = Some the_question"
    "text_q the_question \<noteq> []"
    by (simp_all add: as_GameState_def asking_response_def the_question_def)
  have d: "isl (snd (submitGuessFeedback parse_any (\<lambda>v. v) offline False))"
    by (simp add: submitGuessFeedback_def after_fetch_def offline_def)
  note t1 = negative_feedback_then_next_question
    [of proposing_state proposing_response the_candidate parse_any "\<lambda>v. asking_response"
      serving "\<lparr>status = 200, statusText = ''OK'', text_r = ''B''\<rparr>" "Obj []"
      "\<lparr>status = 200, statusText = ''OK'', text_r = ''B''\<rparr>" "Obj []" asking_response the_question]
  note t2 = negative_feedback_then_next_question
    [of proposing_state proposing_response the_candidate parse_any "\<lambda>v. asking_response"
      offline "\<lparr>status = 200, statusText = ''OK'', text_r = ''B''\<rparr>" "Obj []"
      "\<lparr>status = 200, statusText = ''OK'', text_r = ''B''\<rparr>" "Obj []" asking_response the_question]
  have c1: "requests (handleGuessFeedback parse_any (\<lambda>v. asking_response) serving False proposing_state)
       = [Request ''POST'' ''/api/guess-feedback'' (Some (Obj [(''correct'', Bool False)])),
          Request ''POST'' ''/api/next-question'' None]"
    using g n t1 by blast
  have c2: "state_after (handleGuessFeedback parse_any (\<lambda>v. asking_response) serving False proposing_state)
       = proposing_state\<lparr>currentState := as_GameState (\<lambda>v. asking_response) (Obj []),
                          isLoading := False\<rparr>"
    using g n t1 by blast
  have c3: "controls (Index (state_after (handleGuessFeedback parse_any (\<lambda>v. asking_response) serving False proposing_state)))
       = [Quit, Answer ''yes'', Answer ''probably-yes'', Answer ''maybe'', Answer ''probably-no'',
        Answer ''no'']"
    using g n a t1 by blast
  have c4: "requests (handleGuessFeedback parse_any (\<lambda>v. asking_response) offline False proposing_state)
       = [Request ''POST'' ''/api/guess-feedback'' (Some (Obj [(''correct'', Bool False)]))]"
    using g d t2 by blast
  have c5: "state_after (handleGuessFeedback parse_any (\<lambda>v. asking_response) serving False
        proposing_state)
       = proposing_state\<lparr>currentState := Some asking_response, isLoading := False\<rparr>"
    using c2 a(1) by simp
  show ?thesis
    by (intro conjI) (rule g n a d c1 c3 c4 c5)+
qed

section \<open>The shape of a response\<close>

text \<open>
  C4, as stated: GameState has the fields question, questionNumber, entropy,
  topCandidates and guess, and no others. Two values of the type agree on these five and
  differ all the same: the interface has a sixth field, \<open>questionIndex\<close>.
\<close>

theorem questionIndex_not_in_spec_shape:
  "spec_shape asking_response = spec_shape (asking_response\<lparr>questionIndex := None\<rparr>)
   \<and> asking_response \<noteq> asking_response\<lparr>questionIndex := None\<rparr>"
  by (simp add: spec_shape_def asking_response_def)

text \<open>
  C4, amended: GameState consists exactly of the five fields of the claim, with the types
  given there, and of \<open>questionIndex: number | null\<close>: two values that agree on the six
  are the same value.
\<close>

theorem GameState_six_fields:
  "spec_shape a = spec_shape b \<Longrightarrow> questionIndex a = questionIndex b \<Longrightarrow> a = b"
  by (cases a; cases b) (simp add: spec_shape_def)

theorem GameState_six_fields_witness:
  "spec_shape asking_response = spec_shape (asking_response\<lparr>topCandidates := [the_candidate]\<rparr>)
   \<and> questionIndex asking_response
       = questionIndex (asking_response\<lparr>topCandidates := [the_candidate]\<rparr>)
   \<and> asking_response = asking_response\<lparr>topCandidates := [the_candidate]\<rparr>"
proof -
  have h: "spec_shape asking_response
      = spec_shape (asking_response\<lparr>topCandidates := [the_candidate]\<rparr>)"
    "questionIndex asking_response
      = questionIndex (asking_response\<lparr>topCandidates := [the_candidate]\<rparr>)"
    by (simp_all add: spec_shape_def asking_response_def)
  show ?thesis
    using h GameState_six_fields [OF h] by simp
qed

section \<open>Errors of the four calls\<close>












section \<open>The normalization invariant\<close>

lemma sum_list_scaled: "sum_list (map (\<lambda>x. x / c) xs) = sum_list xs / (c::real)"
  by (induction xs) (simp_all add: add_divide_distrib)

lemma nonneg_sum: "list_all (\<lambda>x. 0 \<le> x) xs \<Longrightarrow> 0 \<le> sum_list (xs::real list)"
  by (induction xs) simp_all

lemma normalized_is_distribution:
  assumes "list_all (\<lambda>x. 0 \<le> x) ws" "sum_list ws \<noteq> (0::real)"
  shows "list_all (\<lambda>x. 0 \<le> x) (map (\<lambda>w. w / sum_list ws) ws)
    \<and> sum_list (map (\<lambda>w. w / sum_list ws) ws) = 1"
proof -
  have "0 < sum_list ws"
    using assms nonneg_sum [of ws] by simp
  then have "list_all (\<lambda>x. 0 \<le> x) (map (\<lambda>w. w / sum_list ws) ws)"
    using assms(1) by (simp add: list_all_iff)
  moreover have "sum_list (map (\<lambda>w. w / sum_list ws) ws) = 1"
    using assms(2) by (simp add: sum_list_scaled)
  ultimately show ?thesis by simp
qed

lemma likelihood_bounds: "0 < likelihood a p \<and> likelihood a p \<le> 1"
  by (simp add: likelihood_def likelihood_floor_def)

lemma unnormalized_nonneg:
  "list_all (\<lambda>x. 0 \<le> x) prior \<Longrightarrow>
     list_all (\<lambda>x. 0 \<le> x)
       (map (\<lambda>(c, p). p * likelihood a (trait_mean c trait)) (zip catalog prior))"
proof -
  assume "list_all (\<lambda>x. 0 \<le> x) prior"
  then have "0 \<le> p" if "(c, p) \<in> set (zip catalog prior)" for c p
    using that by (auto simp: list_all_iff dest: set_zip_rightD)
  moreover have "0 \<le> likelihood a (trait_mean c trait)" for c
    using likelihood_bounds [of a "trait_mean c trait"] by simp
  ultimately show ?thesis
    by (auto simp: list_all_iff)
qed

lemma floored_nonneg:
  "list_all (\<lambda>x. 0 \<le> x) (map (\<lambda>x. max x likelihood_floor) xs)"
  by (induction xs) (simp_all add: likelihood_floor_def max_def)

lemma floored_positive:
  "xs \<noteq> [] \<Longrightarrow> 0 < sum_list (map (\<lambda>x. max x likelihood_floor) xs)"
proof (induction xs)
  case Nil
  then show ?case by simp
next
  case (Cons x xs)
  have "0 < max x likelihood_floor"
    by (simp add: likelihood_floor_def max_def)
  moreover have "0 \<le> sum_list (map (\<lambda>x. max x likelihood_floor) xs)"
    by (intro nonneg_sum floored_nonneg)
  ultimately show ?case by simp
qed

lemma remix_is_distribution:
  assumes "prior \<noteq> []"
  shows "list_all (\<lambda>x. 0 \<le> x) (remix prior) \<and> sum_list (remix prior) = 1"
proof -
  let ?fl = "map (\<lambda>x. max x likelihood_floor) prior"
  have "list_all (\<lambda>x. 0 \<le> x) ?fl"
    by (rule floored_nonneg)
  moreover have "sum_list ?fl \<noteq> 0"
    using floored_positive [OF assms] by simp
  ultimately show ?thesis
    using normalized_is_distribution [of ?fl] by (simp add: remix_def Let_def)
qed

text \<open>
  C7. Every update of the Posterior Updater, applied to a posterior (one entry per
  character, none negative, summing to one), gives a posterior again: the entries are
  non-negative and sum to one, exactly, over the reals.
\<close>

theorem posterior_update_normalized:
  "is_posterior catalog prior \<Longrightarrow> is_posterior catalog (posterior_update catalog trait a prior)"
proof -
  assume p: "is_posterior catalog prior"
  let ?ws = "map (\<lambda>(c, p). p * likelihood a (trait_mean c trait)) (zip catalog prior)"
  have len: "length prior = length catalog" and nn: "list_all (\<lambda>x. 0 \<le> x) prior"
    and one: "sum_list prior = 1"
    using p by (simp_all add: is_posterior_def)
  have ne: "prior \<noteq> []"
    using one by auto
  show ?thesis
  proof (cases "sum_list ?ws = 0")
    case True
    have "length (remix prior) = length catalog"
      using len by (simp add: remix_def Let_def)
    then show ?thesis
      using True remix_is_distribution [OF ne]
      by (simp add: is_posterior_def posterior_update_def Let_def)
  next
    case False
    have "length (map (\<lambda>w. w / sum_list ?ws) ?ws) = length catalog"
      using len by simp
    then show ?thesis
      using False normalized_is_distribution [OF unnormalized_nonneg [OF nn] False]
      by (simp add: is_posterior_def posterior_update_def Let_def)
  qed
qed

theorem posterior_update_normalized_witness:
  "is_posterior [flyer, walker] [1 / 2, 1 / 2]
   \<and> posterior_update [flyer, walker] ''flies'' yes [1 / 2, 1 / 2] = [19 / 20, 1 / 20]
   \<and> is_posterior [flyer, walker] [19 / 20, 1 / 20]"
proof -
  have h: "is_posterior [flyer, walker] [1 / 2, 1 / 2]"
    by (simp add: is_posterior_def)
  have e: "posterior_update [flyer, walker] ''flies'' yes [1 / 2, 1 / 2] = [19 / 20, 1 / 20]"
    by (simp add: posterior_update_def trait_mean_def flyer_def walker_def likelihood_def
        likelihood_floor_def)
  show ?thesis
    using h e posterior_update_normalized [OF h, of "''flies''" yes] by simp
qed

section \<open>Requests in flight\<close>

text \<open>
  Where a handler is clicked with nothing in flight and its calls settle before anything
  else happens, the page ends in the state that the handler, run to its end, computes.
\<close>

lemma handleAnswer_in_time:
  assumes "currentState (page b) = Some cs" "question cs = Some q" "\<not> isLoading (page b)"
    "in_flight b = []"
  shows "run P cast b [Click (Answer a), Settle 0 (net (answer_request (id_q q) a))] =
    (if Button (Answer a) False \<in> set (Index (page b)) then
       b\<lparr>page := state_after (handleAnswer P cast net a (page b)),
         raised := raised b @ toasts (handleAnswer P cast net a (page b))\<rparr>
     else b)"
  using assms
  by (simp add: run_def begin_handleAnswer_def handleAnswer_def submitAnswer_def thrown_def
      caught_def split: sum.splits)

lemma handleStartGame_in_time:
  assumes "in_flight b = []"
  shows "run P cast b [Click Start, Settle 0 (net start_request)] =
    (if Button Start False \<in> set (Index (page b)) then
       b\<lparr>page := state_after (handleStartGame P cast net (page b)),
         raised := raised b @ toasts (handleStartGame P cast net (page b))\<rparr>
     else b)"
  using assms
  by (simp add: run_def begin_handleStartGame_def handleStartGame_def startGame_def thrown_def
      caught_def split: sum.splits exn.splits)

lemma handleGuessFeedback_in_time:
  assumes "currentState (page b) = Some cs" "guess cs = Some g" "\<not> isLoading (page b)"
    "in_flight b = []"
  shows "run P cast b
      [Click (GuessFeedback False), Settle 0 (net (guess_feedback_request False)),
       Settle 0 (net next_question_request)] =
    (if Button (GuessFeedback False) False \<in> set (Index (page b)) then
       b\<lparr>page := state_after (handleGuessFeedback P cast net False (page b)),
         raised := raised b @ toasts (handleGuessFeedback P cast net False (page b))\<rparr>
     else b)"
  using assms
  by (simp add: run_def begin_handleGuessFeedback_def handleGuessFeedback_def
      submitGuessFeedback_def getNextQuestion_def thrown_def caught_def split: sum.splits)

text \<open>
  C8. The claim: POST /answer is never issued unless a question is pending and no other
  request is in flight. From a page that shows a question, the user answers, quits and
  starts a new game before the first POST /answer has been answered: Quit and Start are
  never disabled, \<open>handleStartGame\<close> has no guard, and when POST /start is answered its
  \<open>finally\<close> clears \<open>isLoading\<close>. The next answer is then sent while the first
  POST /answer is still in flight.
\<close>

theorem second_answer_while_first_in_flight:
  "in_flight (run parse_any (\<lambda>v. asking_response) asked
      [Click (Answer ''yes''), Click Quit, Click Start,
       Settle 1 (Inr \<lparr>status = 200, statusText = ''OK'', text_r = ''B''\<rparr>)])
     = [Await_submitAnswer 7 ''yes'']
   \<and> in_flight (run parse_any (\<lambda>v. asking_response) asked
      [Click (Answer ''yes''), Click Quit, Click Start,
       Settle 1 (Inr \<lparr>status = 200, statusText = ''OK'', text_r = ''B''\<rparr>),
       Click (Answer ''no'')])
     = [Await_submitAnswer 7 ''yes'', Await_submitAnswer 7 ''no'']
   \<and> map url (map request_of [Await_submitAnswer 7 ''yes'', Await_submitAnswer 7 ''no''])
     = [''/api/answer'', ''/api/answer'']"
proof -
  let ?P = parse_any and ?c = "\<lambda>v. asking_response"
  let ?r = "Inr \<lparr>status = 200, statusText = ''OK'', text_r = ''B''\<rparr> :: exn + response"
  define b1 where "b1 = \<lparr>page = asking_state\<lparr>isLoading := True\<rparr>,
    in_flight = [Await_submitAnswer 7 ''yes''], raised = []\<rparr>"
  define b2 where "b2 = \<lparr>page = \<lparr>gameState = landing, currentState = None,
      guessedCharacter = None, showAbout = False, isLoading = True\<rparr>,
    in_flight = [Await_submitAnswer 7 ''yes''], raised = []\<rparr>"
  define b3 where "b3 = \<lparr>page = \<lparr>gameState = landing, currentState = None,
      guessedCharacter = None, showAbout = False, isLoading = True\<rparr>,
    in_flight = [Await_submitAnswer 7 ''yes'', Await_startGame], raised = []\<rparr>"
  define b4 where "b4 = \<lparr>page = asking_state, in_flight = [Await_submitAnswer 7 ''yes''],
    raised = []\<rparr>"
  define b5 where "b5 = \<lparr>page = asking_state\<lparr>isLoading := True\<rparr>,
    in_flight = [Await_submitAnswer 7 ''yes'', Await_submitAnswer 7 ''no''], raised = []\<rparr>"
  have s1: "step ?P ?c asked (Click (Answer ''yes'')) = b1"
    by (simp add: asked_def b1_def begin_handleAnswer_def asking_state_def asking_response_def
        the_question_def Index_def GameScreen_def answers_def)
  have s2: "step ?P ?c b1 (Click Quit) = b2"
    by (simp add: b1_def b2_def handleQuitGame_def asking_state_def asking_response_def
        the_question_def Index_def GameScreen_def)
  have s3: "step ?P ?c b2 (Click Start) = b3"
    by (simp add: b2_def b3_def begin_handleStartGame_def Index_def LandingScreen_def)
  have s4: "step ?P ?c b3 (Settle 1 ?r) = b4"
    by (simp add: b3_def b4_def startGame_def after_fetch_def ok_def parseJsonResponse_def
        parse_any_def as_GameState_def asking_state_def)
  have s5: "step ?P ?c b4 (Click (Answer ''no'')) = b5"
    by (simp add: b4_def b5_def begin_handleAnswer_def asking_state_def asking_response_def
        the_question_def Index_def GameScreen_def answers_def)
  have "run ?P ?c asked [Click (Answer ''yes''), Click Quit, Click Start, Settle 1 ?r] = b4"
    by (simp only: run_def foldl_Cons foldl_Nil s1 s2 s3 s4)
  moreover have "run ?P ?c asked
      [Click (Answer ''yes''), Click Quit, Click Start, Settle 1 ?r, Click (Answer ''no'')] = b5"
    by (simp only: run_def foldl_Cons foldl_Nil s1 s2 s3 s4 s5)
  moreover have "map url (map request_of [Await_submitAnswer 7 ''yes'',
      Await_submitAnswer 7 ''no'']) = [''/api/answer'', ''/api/answer'']"
    by (simp add: answer_request_def API_BASE_def Let_def)
  ultimately show ?thesis
    by (simp add: b4_def b5_def)
qed

end
